theory Spec2Isabelle
  imports Complex_Main
begin

section \<open>JavaScript numbers\<close>

text \<open>
  The services compute with JavaScript numbers. Finite values are modelled by the reals
  (binary rounding error is outside the model); the three non-finite values that an
  unguarded division or a square root of a negative number produces are modelled
  explicitly, so that a division by zero in the source is a visible branch of the model
  and not the arbitrary value of HOL's total division. Signed zeros are not distinguished:
  every zero divisor met in the modelled code is a count or a square root, hence \<open>+0\<close>.
\<close>

datatype jsnum = Num real | PosInf | NegInf | NaN

fun jneg :: "jsnum \<Rightarrow> jsnum" where
  "jneg (Num a) = Num (- a)"
| "jneg PosInf = NegInf"
| "jneg NegInf = PosInf"
| "jneg NaN = NaN"

fun jadd :: "jsnum \<Rightarrow> jsnum \<Rightarrow> jsnum" where
  "jadd (Num a) (Num b) = Num (a + b)"
| "jadd NaN _ = NaN"
| "jadd _ NaN = NaN"
| "jadd PosInf NegInf = NaN"
| "jadd NegInf PosInf = NaN"
| "jadd PosInf _ = PosInf"
| "jadd _ PosInf = PosInf"
| "jadd NegInf _ = NegInf"
| "jadd _ NegInf = NegInf"

definition jsub :: "jsnum \<Rightarrow> jsnum \<Rightarrow> jsnum" where
  "jsub a b = jadd a (jneg b)"

fun jsign :: "real \<Rightarrow> jsnum \<Rightarrow> jsnum" where
  "jsign a x = (if a > 0 then x else if a < 0 then jneg x else NaN)"

fun jmul :: "jsnum \<Rightarrow> jsnum \<Rightarrow> jsnum" where
  "jmul (Num a) (Num b) = Num (a * b)"
| "jmul NaN _ = NaN"
| "jmul _ NaN = NaN"
| "jmul (Num a) x = jsign a x"
| "jmul x (Num b) = jsign b x"
| "jmul PosInf x = x"
| "jmul NegInf x = jneg x"

fun jdiv :: "jsnum \<Rightarrow> jsnum \<Rightarrow> jsnum" where
  "jdiv (Num a) (Num b) = (if b \<noteq> 0 then Num (a / b) else jsign a PosInf)"
| "jdiv NaN _ = NaN"
| "jdiv _ NaN = NaN"
| "jdiv (Num a) _ = Num 0"
| "jdiv x (Num b) = (if b \<ge> 0 then x else jneg x)"
| "jdiv _ _ = NaN"

fun jabs :: "jsnum \<Rightarrow> jsnum" where
  "jabs (Num a) = Num \<bar>a\<bar>"
| "jabs NaN = NaN"
| "jabs _ = PosInf"

fun jsqrt :: "jsnum \<Rightarrow> jsnum" where
  "jsqrt (Num a) = (if a < 0 then NaN else Num (sqrt a))"
| "jsqrt PosInf = PosInf"
| "jsqrt _ = NaN"

text \<open>\<^verbatim>\<open>a >= b\<close> and \<^verbatim>\<open>a > b\<close>: every comparison with \<^verbatim>\<open>NaN\<close> is false.\<close>

fun jge :: "jsnum \<Rightarrow> jsnum \<Rightarrow> bool" where
  "jge (Num a) (Num b) = (a \<ge> b)"
| "jge NaN _ = False"
| "jge _ NaN = False"
| "jge PosInf _ = True"
| "jge _ NegInf = True"
| "jge _ _ = False"

fun jgt :: "jsnum \<Rightarrow> jsnum \<Rightarrow> bool" where
  "jgt (Num a) (Num b) = (a > b)"
| "jgt NaN _ = False"
| "jgt _ NaN = False"
| "jgt PosInf PosInf = False"
| "jgt NegInf NegInf = False"
| "jgt PosInf _ = True"
| "jgt _ NegInf = True"
| "jgt _ _ = False"

text \<open>\<^verbatim>\<open>Math.min\<close> and \<^verbatim>\<open>Math.max\<close> of two arguments: \<^verbatim>\<open>NaN\<close> if either is.\<close>

fun jmin :: "jsnum \<Rightarrow> jsnum \<Rightarrow> jsnum" where
  "jmin NaN _ = NaN"
| "jmin _ NaN = NaN"
| "jmin a b = (if jge a b then b else a)"

fun jmax :: "jsnum \<Rightarrow> jsnum \<Rightarrow> jsnum" where
  "jmax NaN _ = NaN"
| "jmax _ NaN = NaN"
| "jmax a b = (if jge a b then a else b)"

text \<open>\<^verbatim>\<open>Math.round\<close> rounds to the nearest integer, halves towards \<open>+\<infinity>\<close>.\<close>

definition js_round :: "real \<Rightarrow> real" where
  "js_round x = of_int \<lfloor>x + 1 / 2\<rfloor>"

fun jround :: "jsnum \<Rightarrow> jsnum" where
  "jround (Num a) = Num (js_round a)"
| "jround PosInf = PosInf"
| "jround NegInf = NegInf"
| "jround NaN = NaN"

text \<open>The idiom \<^verbatim>\<open>Math.round(x * 100) / 100\<close> used for every reported figure.\<close>

definition round2 :: "real \<Rightarrow> real" where
  "round2 x = js_round (x * 100) / 100"

definition jround2 :: "jsnum \<Rightarrow> jsnum" where
  "jround2 x = jdiv (jround (jmul x (Num 100))) (Num 100)"

text \<open>
  A template literal interleaves text with numbers that the language renders by its
  built-in conversion. The rendering is not modelled: a message is the list of its pieces.
\<close>

datatype piece = Lit string | NumLit real

type_synonym message = "piece list"

section \<open>Weighted scoring (customScoringService.ts)\<close>

text \<open>
  A feature value is typed \<^verbatim>\<open>any\<close> where it is normalised. \<open>Other\<close> stands for every
  value that is neither a number, a boolean nor an array (a string, an object).
\<close>

datatype jsvalue = Undefined | Null | Number real | Boolean bool | Array "string list" | Other

text \<open>
  \<^verbatim>\<open>LeadFeatures\<close> and the weight map are objects: lists of entries in insertion order,
  with distinct keys. \<^verbatim>\<open>weights[feature]\<close> is \<open>map_of\<close>.
\<close>

type_synonym leadFeatures = "(string \<times> jsvalue) list"

record thresholds =
  hot :: real
  warm :: real
  cold :: real

record algorithm =
  weights :: "(string \<times> real) list"
  thresholds :: thresholds

datatype category = Hot | Warm | Cold

text \<open>An entry of \<^verbatim>\<open>impacts\<close>; its field \<^verbatim>\<open>value\<close> is \<open>val\<close> here.\<close>

record factor =
  feature :: string
  impact :: real
  val :: jsvalue

record explanation =
  topFactors :: "factor list"
  reasoning :: message

record scoringResult =
  score :: real
  confidence :: jsnum
  category :: category
  features :: leadFeatures
  explanation :: explanation

fun normalizeFeatureValue :: "jsvalue \<Rightarrow> real" where
  "normalizeFeatureValue (Number v) = min 1 (max 0 (v / 100))"
| "normalizeFeatureValue (Boolean b) = (if b then 1 else 0)"
| "normalizeFeatureValue (Array xs) = min 1 (real (length xs) / 10)"
| "normalizeFeatureValue _ = 0"

text \<open>\<^verbatim>\<open>value !== undefined && value !== null\<close>\<close>

fun present :: "jsvalue \<Rightarrow> bool" where
  "present Undefined = False"
| "present Null = False"
| "present _ = True"

text \<open>\<^verbatim>\<open>weights[feature]\<close> is truthy: the key has an entry and the weight is not 0.\<close>

definition weighted :: "(string \<times> real) list \<Rightarrow> string \<Rightarrow> bool" where
  "weighted ws f = (case map_of ws f of None \<Rightarrow> False | Some w \<Rightarrow> w \<noteq> 0)"

definition weightOf :: "(string \<times> real) list \<Rightarrow> string \<Rightarrow> real" where
  "weightOf ws f = (case map_of ws f of None \<Rightarrow> 0 | Some w \<Rightarrow> w)"

text \<open>
  The body of the \<^verbatim>\<open>forEach\<close> over \<^verbatim>\<open>Object.entries(features)\<close>; the accumulator is
  \<open>(totalScore, totalWeight, impacts)\<close>.
\<close>

definition accumulate ::
  "(string \<times> real) list \<Rightarrow> string \<times> jsvalue \<Rightarrow> real \<times> real \<times> factor list \<Rightarrow> real \<times> real \<times> factor list" where
  "accumulate ws e acc =
     (case e of (f, v) \<Rightarrow> case acc of (totalScore, totalWeight, impacts) \<Rightarrow>
        if weighted ws f \<and> present v then
          let normalizedValue = normalizeFeatureValue v;
              weight = weightOf ws f;
              imp = normalizedValue * weight
          in (totalScore + imp, totalWeight + weight,
              impacts @ [\<lparr>feature = f, impact = round2 imp, val = v\<rparr>])
        else acc)"

definition weightedSum :: "(string \<times> real) list \<Rightarrow> leadFeatures \<Rightarrow> real \<times> real \<times> factor list" where
  "weightedSum ws fs = fold (accumulate ws) fs (0, 0, [])"

definition finalScore :: "(string \<times> real) list \<Rightarrow> leadFeatures \<Rightarrow> real" where
  "finalScore ws fs =
     (case weightedSum ws fs of (totalScore, totalWeight, _) \<Rightarrow>
        if totalWeight > 0 then (totalScore / totalWeight) * 100 else 0)"

definition categorize :: "thresholds \<Rightarrow> real \<Rightarrow> category" where
  "categorize th s = (if s \<ge> hot th then Hot else if s \<ge> warm th then Warm else Cold)"

text \<open>
  \<^verbatim>\<open>impacts.sort((a, b) => Math.abs(b.impact) - Math.abs(a.impact))\<close>: a stable sort,
  largest magnitude first.
\<close>

definition sortImpacts :: "factor list \<Rightarrow> factor list" where
  "sortImpacts impacts = sort_key (\<lambda>i. - \<bar>impact i\<bar>) impacts"

text \<open>The number of entries of the vector that are neither undefined nor null.\<close>

definition presentCount :: "leadFeatures \<Rightarrow> nat" where
  "presentCount fs = length (filter present (map snd fs))"

definition completeness :: "(string \<times> real) list \<Rightarrow> leadFeatures \<Rightarrow> jsnum" where
  "completeness ws fs =
     jmin (Num 1)
       (jmul (jdiv (Num (real (presentCount fs))) (Num (real (length ws)))) (Num (12 / 10)))"

fun categoryName :: "category \<Rightarrow> string" where
  "categoryName Hot = ''hot''"
| "categoryName Warm = ''warm''"
| "categoryName Cold = ''cold''"

fun joinWith :: "message \<Rightarrow> message list \<Rightarrow> message" where
  "joinWith sep [] = []"
| "joinWith sep [x] = x"
| "joinWith sep (x # xs) = x @ sep @ joinWith sep xs"

definition generateReasoning :: "real \<Rightarrow> category \<Rightarrow> factor list \<Rightarrow> message" where
  "generateReasoning s c tops =
     (let r0 = [Lit ''Lead scored '', NumLit s, Lit ''/100, categorized as '',
                Lit (categoryName c), Lit ''. ''];
          r1 = (if length tops > 0
                then r0 @ [Lit ''Key factors: ''] @
                     joinWith [Lit '', '']
                       (map (\<lambda>f. [Lit (feature f), Lit '' ('',
                                   Lit (if impact f > 0 then ''+'' else []),
                                   NumLit (impact f), Lit '')'']) tops)
                else r0)
      in case c of
           Hot \<Rightarrow> r1 @ [Lit ''. High-priority lead - immediate outreach recommended.'']
         | Warm \<Rightarrow> r1 @ [Lit ''. Moderate-priority lead - targeted nurturing recommended.'']
         | Cold \<Rightarrow> r1 @ [Lit ''. Low-priority lead - automated nurturing or disqualification.''])"

definition applyAlgorithm :: "leadFeatures \<Rightarrow> algorithm \<Rightarrow> scoringResult" where
  "applyAlgorithm fs alg =
     (let ws = weights alg;
          th = thresholds alg;
          fin = finalScore ws fs;
          cat = categorize th fin;
          impacts = sortImpacts (snd (snd (weightedSum ws fs)));
          conf = completeness ws fs
      in \<lparr>score = round2 fin,
          confidence = jround2 conf,
          category = cat,
          features = fs,
          explanation = \<lparr>topFactors = take 5 impacts,
                          reasoning = generateReasoning fin cat (take 3 impacts)\<rparr>\<rparr>)"

text \<open>
  The claim-side reading of the weighted aggregation: the entries that carry a weight and
  a value, and the quotient of the two sums over them.
\<close>

definition presentWeighted :: "(string \<times> real) list \<Rightarrow> leadFeatures \<Rightarrow> leadFeatures" where
  "presentWeighted ws fs = filter (\<lambda>e. weighted ws (fst e) \<and> present (snd e)) fs"

definition specScore :: "(string \<times> real) list \<Rightarrow> leadFeatures \<Rightarrow> real" where
  "specScore ws fs =
     (let P = presentWeighted ws fs;
          num = (\<Sum>e\<leftarrow>P. normalizeFeatureValue (snd e) * weightOf ws (fst e));
          den = (\<Sum>e\<leftarrow>P. weightOf ws (fst e))
      in if den > 0 then num / den * 100 else 0)"

definition factorOf :: "(string \<times> real) list \<Rightarrow> string \<times> jsvalue \<Rightarrow> factor" where
  "factorOf ws e = \<lparr>feature = fst e,
                   impact = round2 (normalizeFeatureValue (snd e) * weightOf ws (fst e)),
                   val = snd e\<rparr>"

section \<open>Campaign metrics (CampaignAnalyticsService.calculateCampaignMetrics)\<close>

datatype emailEventType =
  SENT | DELIVERED | OPENED | CLICKED | REPLIED | BOUNCED | UNSUBSCRIBED | MARKED_SPAM | CONVERTED

datatype executionStatus =
  PENDING | SENT | DELIVERED | OPENED | CLICKED | REPLIED | FAILED | BOUNCED | CONVERTED

text \<open>
  Rows of \<^verbatim>\<open>campaign_executions\<close> with their included \<^verbatim>\<open>emailEvents\<close>. A nullable
  \<^verbatim>\<open>DateTime\<close> is an optional instant; an instant is a natural number.
\<close>

record campaignExecution =
  execCampaignId :: string
  execStatus :: executionStatus
  openedAt :: "nat option"
  clickedAt :: "nat option"
  repliedAt :: "nat option"
  convertedAt :: "nat option"
  execRevenue :: "real option"
  emailEvents :: "emailEventType list"

record campaign =
  campaignRowId :: string
  campaignRowName :: string
  campaignRowType :: string
  campaignCreatedAt :: nat

record campaignMetrics =
  campaignId :: string
  campaignName :: string
  campaignType :: string
  totalSent :: nat
  totalDelivered :: nat
  totalOpened :: nat
  totalClicked :: nat
  totalReplied :: nat
  totalBounced :: nat
  totalUnsubscribed :: nat
  totalConverted :: nat
  totalRevenue :: real
  deliveryRate :: real
  openRate :: real
  clickRate :: real
  replyRate :: real
  bounceRate :: real
  unsubscribeRate :: real
  conversionRate :: real
  averageRevenuePerLead :: real
  createdAt :: nat
  lastUpdated :: nat

text \<open>
  The tables the service reads and writes. \<open>analytics\<close> is \<^verbatim>\<open>campaign_analytics\<close>, keyed by
  its unique \<^verbatim>\<open>campaignId\<close>; a row holds the figures of the snapshot it was written from.
\<close>

record campaignStore =
  campaigns :: "campaign list"
  executions :: "campaignExecution list"
  analytics :: "string \<rightharpoonup> campaignMetrics"

datatype error = Error string | TypeError | ForeignKeyViolation

text \<open>\<^verbatim>\<open>e.convertedAt && e.revenue && e.revenue > 0\<close>\<close>

definition converted :: "campaignExecution \<Rightarrow> bool" where
  "converted e = (convertedAt e \<noteq> None \<and> (case execRevenue e of None \<Rightarrow> False | Some r \<Rightarrow> r \<noteq> 0 \<and> r > 0))"

text \<open>\<^verbatim>\<open>execution.revenue || 0\<close>\<close>

definition revenueOrZero :: "campaignExecution \<Rightarrow> real" where
  "revenueOrZero e = (case execRevenue e of None \<Rightarrow> 0 | Some r \<Rightarrow> r)"

text \<open>
  \<open>storeCampaignAnalytics\<close> upserts the row of the campaign and swallows every error of
  the write, so it never fails the caller.
\<close>

definition storeCampaignAnalytics :: "campaignMetrics \<Rightarrow> campaignStore \<Rightarrow> campaignStore" where
  "storeCampaignAnalytics m s = s\<lparr>analytics := (analytics s)(campaignId m \<mapsto> m)\<rparr>"

text \<open>\<open>now\<close> is the value of \<^verbatim>\<open>new Date()\<close> at the call.\<close>

definition calculateCampaignMetrics ::
  "nat \<Rightarrow> string \<Rightarrow> campaignStore \<Rightarrow> error + campaignMetrics \<times> campaignStore" where
  "calculateCampaignMetrics now cid s =
     (case find (\<lambda>c. campaignRowId c = cid) (campaigns s) of
        None \<Rightarrow> Inl (Error ''Campaign not found'')
      | Some c \<Rightarrow>
          let es = filter (\<lambda>e. execCampaignId e = cid) (executions s);
              nSent = length es;
              nDelivered = length (filter (\<lambda>e. execStatus e \<noteq> FAILED \<and> execStatus e \<noteq> executionStatus.BOUNCED) es);
              nOpened = length (filter (\<lambda>e. openedAt e \<noteq> None) es);
              nClicked = length (filter (\<lambda>e. clickedAt e \<noteq> None) es);
              nReplied = length (filter (\<lambda>e. repliedAt e \<noteq> None) es);
              nBounced = length (filter (\<lambda>e. execStatus e = executionStatus.BOUNCED) es);
              nConverted = length (filter converted es);
              nUnsubscribed = fold (\<lambda>e n. n + length (filter (\<lambda>t. t = UNSUBSCRIBED) (emailEvents e))) es 0;
              revenue = fold (\<lambda>e r. r + revenueOrZero e) es 0;
              rDelivery = (if nSent > 0 then (real nDelivered / real nSent) * 100 else 0);
              rOpen = (if nDelivered > 0 then (real nOpened / real nDelivered) * 100 else 0);
              rClick = (if nOpened > 0 then (real nClicked / real nOpened) * 100 else 0);
              rReply = (if nDelivered > 0 then (real nReplied / real nDelivered) * 100 else 0);
              rBounce = (if nSent > 0 then (real nBounced / real nSent) * 100 else 0);
              rUnsubscribe = (if nDelivered > 0 then (real nUnsubscribed / real nDelivered) * 100 else 0);
              rConversion = (if nDelivered > 0 then (real nConverted / real nDelivered) * 100 else 0);
              avgRevenue = (if nConverted > 0 then revenue / real nConverted else 0);
              metrics = \<lparr>campaignId = campaignRowId c,
                         campaignName = campaignRowName c,
                         campaignType = campaignRowType c,
                         totalSent = nSent,
                         totalDelivered = nDelivered,
                         totalOpened = nOpened,
                         totalClicked = nClicked,
                         totalReplied = nReplied,
                         totalBounced = nBounced,
                         totalUnsubscribed = nUnsubscribed,
                         totalConverted = nConverted,
                         totalRevenue = revenue,
                         deliveryRate = round2 rDelivery,
                         openRate = round2 rOpen,
                         clickRate = round2 rClick,
                         replyRate = round2 rReply,
                         bounceRate = round2 rBounce,
                         unsubscribeRate = round2 rUnsubscribe,
                         conversionRate = round2 rConversion,
                         averageRevenuePerLead = round2 avgRevenue,
                         createdAt = campaignCreatedAt c,
                         lastUpdated = now\<rparr>
          in Inr (metrics, storeCampaignAnalytics metrics s))"

section \<open>A/B testing (AbTestingService)\<close>

datatype abTestStatus = DRAFT | RUNNING | PAUSED | COMPLETED | CANCELLED

datatype abTestEvent = ASSIGNED | IMPRESSION | CLICK | CONVERSION | REVENUE

text \<open>
  Rows of \<^verbatim>\<open>ab_tests\<close>, \<^verbatim>\<open>ab_test_variants\<close>, \<^verbatim>\<open>ab_test_results\<close> and \<^verbatim>\<open>activities\<close>, with the
  columns the service reads or writes. Column names carry the table as a prefix; the
  objects the service builds keep the names of the source. An \<^verbatim>\<open>Int\<close> column is an
  integer; the range of the database column is not modelled. The generated keys and
  timestamps of rows are left out.
\<close>

record abTest =
  test_id :: string
  test_name :: string
  test_status :: abTestStatus
  test_confidenceLevel :: real
  test_minSampleSize :: int
  test_startDate :: "nat option"
  test_endDate :: "nat option"

record abTestVariant =
  variant_id :: string
  variant_testId :: string
  variant_name :: string
  variant_trafficPercent :: real
  variant_impressions :: int
  variant_clicks :: int
  variant_conversions :: int
  variant_revenue :: real

record abTestResult =
  result_testId :: string
  result_variantId :: string
  result_leadId :: string
  result_event :: abTestEvent
  result_value :: "real option"

record activity =
  activity_leadId :: string
  activity_type :: string
  activity_description :: string
  activity_metadata :: "(string \<times> string) list"

record abStore =
  tests :: "abTest list"
  testVariants :: "abTestVariant list"
  testResults :: "abTestResult list"
  activities :: "activity list"
  leads :: "string list"

text \<open>\<^verbatim>\<open>prisma.abTest.findUnique({ where: { id }, include: { variants: true } })\<close>\<close>

definition findTest :: "string \<Rightarrow> abStore \<Rightarrow> abTest option" where
  "findTest tid s = find (\<lambda>t. test_id t = tid) (tests s)"

definition variantsOf :: "string \<Rightarrow> abStore \<Rightarrow> abTestVariant list" where
  "variantsOf tid s = filter (\<lambda>v. variant_testId v = tid) (testVariants s)"

text \<open>
  \<^verbatim>\<open>prisma.abTestResult.create\<close> appends a row; the relations of the schema make the
  insert fail when the test, the variant or the lead does not exist.
\<close>

definition createResult :: "abTestResult \<Rightarrow> abStore \<Rightarrow> error + abStore" where
  "createResult r s =
     (if result_testId r \<in> set (map test_id (tests s)) \<and>
         result_variantId r \<in> set (map variant_id (testVariants s)) \<and>
         result_leadId r \<in> set (leads s)
      then Inr (s\<lparr>testResults := testResults s @ [r]\<rparr>)
      else Inl ForeignKeyViolation)"

definition createActivity :: "activity \<Rightarrow> abStore \<Rightarrow> error + abStore" where
  "createActivity a s =
     (if activity_leadId a \<in> set (leads s)
      then Inr (s\<lparr>activities := activities s @ [a]\<rparr>)
      else Inl ForeignKeyViolation)"

text \<open>
  \<^verbatim>\<open>prisma.abTestResult.findFirst\<close> for the \<^verbatim>\<open>ASSIGNED\<close> row of a test and a lead: the first
  such row of the table.
\<close>

definition isAssignment :: "string \<Rightarrow> string \<Rightarrow> abTestResult \<Rightarrow> bool" where
  "isAssignment tid lid r =
     (result_testId r = tid \<and> result_leadId r = lid \<and> result_event r = ASSIGNED)"

definition existingAssignment :: "string \<Rightarrow> string \<Rightarrow> abStore \<Rightarrow> abTestResult option" where
  "existingAssignment tid lid s = find (isAssignment tid lid) (testResults s)"

text \<open>
  The loop of \<open>assignVariant\<close> over \<^verbatim>\<open>test.variants\<close>: it returns the variant at which it
  breaks, or nothing when it runs to the end.
\<close>

fun walkVariants :: "real \<Rightarrow> real \<Rightarrow> abTestVariant list \<Rightarrow> abTestVariant option" where
  "walkVariants random cumulative [] = None"
| "walkVariants random cumulative (v # vs) =
     (let cumulative' = cumulative + variant_trafficPercent v
      in if random \<le> cumulative' then Some v else walkVariants random cumulative' vs)"

text \<open>
  \<open>selectedVariant\<close> starts as \<^verbatim>\<open>test.variants[0]\<close> (\<^verbatim>\<open>undefined\<close>, here \<open>None\<close>, for a test
  without variants) and is overwritten when the loop breaks.
\<close>

definition selectVariant :: "real \<Rightarrow> abTestVariant list \<Rightarrow> abTestVariant option" where
  "selectVariant random vs =
     (let selectedVariant = (case vs of [] \<Rightarrow> None | v0 # _ \<Rightarrow> Some v0)
      in case walkVariants random 0 vs of
           Some v \<Rightarrow> Some v
         | None \<Rightarrow> selectedVariant)"

text \<open>
  \<open>random\<close> is the value of \<^verbatim>\<open>Math.random() * 100\<close> at the call, a number in \<open>[0, 100)\<close>.
  Reading \<^verbatim>\<open>selectedVariant.id\<close> of \<^verbatim>\<open>undefined\<close> throws a \<^verbatim>\<open>TypeError\<close>. Every failure
  happens before the first write, so a failed call leaves the store as it was.
\<close>

definition assignVariant :: "real \<Rightarrow> string \<Rightarrow> string \<Rightarrow> abStore \<Rightarrow> error + string \<times> abStore" where
  "assignVariant random tid lid s =
     (case findTest tid s of
        None \<Rightarrow> Inl (Error ''Test is not running'')
      | Some test \<Rightarrow>
          if test_status test \<noteq> RUNNING then Inl (Error ''Test is not running'')
          else case existingAssignment tid lid s of
            Some a \<Rightarrow> Inr (result_variantId a, s)
          | None \<Rightarrow>
              (case selectVariant random (variantsOf tid s) of
                 None \<Rightarrow> Inl TypeError
               | Some v \<Rightarrow>
                   (case createResult \<lparr>result_testId = tid, result_variantId = variant_id v,
                                       result_leadId = lid, result_event = ASSIGNED,
                                       result_value = None\<rparr> s of
                      Inl e \<Rightarrow> Inl e
                    | Inr s1 \<Rightarrow>
                        (case createActivity
                                \<lparr>activity_leadId = lid,
                                 activity_type = ''AB_TEST_ASSIGNED'',
                                 activity_description =
                                   ''Assigned to A/B test variant: '' @ variant_name v,
                                 activity_metadata =
                                   [(''testId'', tid), (''variantId'', variant_id v),
                                    (''variantName'', variant_name v)]\<rparr> s1 of
                           Inl e \<Rightarrow> Inl e
                         | Inr s2 \<Rightarrow> Inr (variant_id v, s2)))))"

text \<open>
  The \<^verbatim>\<open>switch\<close> of \<open>trackEvent\<close>: the increment of the variant row, or no update at all
  (\<^verbatim>\<open>updateData\<close> stays empty) for an event without a case. \<^verbatim>\<open>value || 0\<close> is 0 for a
  missing value. The event is a value of the enumeration of the schema; any other string
  is refused by the database client.
\<close>

fun updateData :: "abTestEvent \<Rightarrow> real option \<Rightarrow> (abTestVariant \<Rightarrow> abTestVariant) option" where
  "updateData IMPRESSION value = Some (\<lambda>v. v\<lparr>variant_impressions := variant_impressions v + 1\<rparr>)"
| "updateData CLICK value = Some (\<lambda>v. v\<lparr>variant_clicks := variant_clicks v + 1\<rparr>)"
| "updateData CONVERSION value = Some (\<lambda>v. v\<lparr>variant_conversions := variant_conversions v + 1\<rparr>)"
| "updateData REVENUE value =
     Some (\<lambda>v. v\<lparr>variant_revenue := variant_revenue v + (case value of None \<Rightarrow> 0 | Some x \<Rightarrow> x)\<rparr>)"
| "updateData ASSIGNED value = None"

text \<open>
  \<^verbatim>\<open>prisma.abTestVariant.update({ where: { id: variantId }, data })\<close>. It is called after
  the event row has been created, hence for a variant that exists.
\<close>

definition updateVariant :: "string \<Rightarrow> (abTestVariant \<Rightarrow> abTestVariant) \<Rightarrow> abStore \<Rightarrow> abStore" where
  "updateVariant vid upd s =
     s\<lparr>testVariants := map (\<lambda>v. if variant_id v = vid then upd v else v) (testVariants s)\<rparr>"

definition trackEvent ::
  "string \<Rightarrow> string \<Rightarrow> string \<Rightarrow> abTestEvent \<Rightarrow> real option \<Rightarrow> abStore \<Rightarrow> error + abStore" where
  "trackEvent tid vid lid ev value s =
     (case createResult \<lparr>result_testId = tid, result_variantId = vid, result_leadId = lid,
                         result_event = ev, result_value = value\<rparr> s of
        Inl e \<Rightarrow> Inl e
      | Inr s1 \<Rightarrow>
          (case updateData ev value of
             None \<Rightarrow> Inr s1
           | Some upd \<Rightarrow> Inr (updateVariant vid upd s1)))"

text \<open>
  The two functions of the \<^verbatim>\<open>simple-statistics\<close> package that the service calls. The
  package is not part of the repository; its functions are parameters of the model.
\<close>

record stats =
  cumulativeStdNormalProbability :: "jsnum \<Rightarrow> jsnum"
  probit :: "jsnum \<Rightarrow> jsnum"

record variantResult =
  vr_id :: string
  vr_name :: string
  vr_impressions :: int
  vr_clicks :: int
  vr_conversions :: int
  vr_revenue :: real
  vr_conversionRate :: real
  vr_revenuePerConversion :: real
  vr_confidence :: "(jsnum \<times> jsnum) option"

record winner =
  variantId :: string
  variantName :: string
  improvement :: jsnum

record analysis =
  significance :: jsnum
  analysisWinner :: "winner option"
  recommendation :: string

record abTestResults =
  testId :: string
  status :: abTestStatus
  variants :: "variantResult list"
  winner :: "winner option"
  statisticalSignificance :: "jsnum option"
  recommendedAction :: "string option"
  startDate :: "nat option"
  endDate :: "nat option"

text \<open>The z-test of \<open>performStatisticalAnalysis\<close>, line by line.\<close>

definition rateOf :: "variantResult \<Rightarrow> jsnum" where
  "rateOf v = jdiv (Num (of_int (vr_conversions v))) (Num (of_int (vr_impressions v)))"

definition zTestSignificance :: "stats \<Rightarrow> variantResult \<Rightarrow> variantResult \<Rightarrow> jsnum" where
  "zTestSignificance st control treatment =
     (let p1 = rateOf control;
          p2 = rateOf treatment;
          pooledP = jdiv (Num (of_int (vr_conversions control + vr_conversions treatment)))
                         (Num (of_int (vr_impressions control + vr_impressions treatment)));
          se = jsqrt (jmul (jmul pooledP (jsub (Num 1) pooledP))
                           (jadd (jdiv (Num 1) (Num (of_int (vr_impressions control))))
                                 (jdiv (Num 1) (Num (of_int (vr_impressions treatment))))));
          zScore = jdiv (jabs (jsub p2 p1)) se;
          pValue = jmul (Num 2) (jsub (Num 1) (cumulativeStdNormalProbability st (jabs zScore)))
      in jmul (jsub (Num 1) pValue) (Num 100))"

text \<open>
  Nothing in the body of \<open>performStatisticalAnalysis\<close> throws, so its \<^verbatim>\<open>catch\<close> branch is
  never taken and has no counterpart here.
\<close>

definition performStatisticalAnalysis :: "stats \<Rightarrow> variantResult list \<Rightarrow> real \<Rightarrow> analysis" where
  "performStatisticalAnalysis st vs confLevel =
     (case vs of
        [control, treatment] \<Rightarrow>
          let p1 = rateOf control;
              p2 = rateOf treatment;
              sig = zTestSignificance st control treatment;
              requiredSignificance = Num confLevel
          in if jge sig requiredSignificance then
               let betterVariant = (if jgt p2 p1 then treatment else control);
                   imp = jmul (jabs (jdiv (jsub p2 p1) p1)) (Num 100)
               in \<lparr>significance = jround2 sig,
                   analysisWinner = Some \<lparr>variantId = vr_id betterVariant,
                                          variantName = vr_name betterVariant,
                                          improvement = jround2 imp\<rparr>,
                   recommendation =
                     vr_name betterVariant @ '' is significantly better. Implement this variant.''\<rparr>
             else if jge sig (Num 80) then
               \<lparr>significance = jround2 sig, analysisWinner = None,
                recommendation = ''Test showing promising results but needs more data''\<rparr>
             else
               \<lparr>significance = jround2 sig, analysisWinner = None,
                recommendation = ''Continue test - not enough data for conclusive results''\<rparr>
      | _ \<Rightarrow> \<lparr>significance = Num 0, analysisWinner = None,
              recommendation = ''Statistical analysis only supported for 2-variant tests''\<rparr>)"

definition calculateConfidenceInterval :: "stats \<Rightarrow> int \<Rightarrow> int \<Rightarrow> real \<Rightarrow> jsnum \<times> jsnum" where
  "calculateConfidenceInterval st conv imps confLevel =
     (if imps = 0 then (Num 0, Num 0)
      else
        let p = Num (of_int conv / of_int imps);
            z = probit st (Num ((1 + confLevel / 100) / 2));
            margin = jmul z (jsqrt (jdiv (jmul p (jsub (Num 1) p)) (Num (of_int imps))))
        in (jmax (Num 0) (jdiv (jround (jmul (jsub p margin) (Num 10000))) (Num 100)),
            jmin (Num 100) (jdiv (jround (jmul (jadd p margin) (Num 10000))) (Num 100))))"

definition variantResultOf :: "abTestVariant \<Rightarrow> variantResult" where
  "variantResultOf v =
     (let conversionRate =
            (if variant_impressions v > 0
             then (of_int (variant_conversions v) / of_int (variant_impressions v)) * 100 else 0);
          revenuePerConversion =
            (if variant_conversions v > 0
             then variant_revenue v / of_int (variant_conversions v) else 0)
      in \<lparr>vr_id = variant_id v,
          vr_name = variant_name v,
          vr_impressions = variant_impressions v,
          vr_clicks = variant_clicks v,
          vr_conversions = variant_conversions v,
          vr_revenue = variant_revenue v,
          vr_conversionRate = round2 conversionRate,
          vr_revenuePerConversion = round2 revenuePerConversion,
          vr_confidence = None\<rparr>)"

text \<open>The sample-size gate of \<open>getTestResults\<close>.\<close>

definition enoughData :: "abTest \<Rightarrow> variantResult list \<Rightarrow> bool" where
  "enoughData test vrs =
     (length vrs \<ge> 2 \<and> list_all (\<lambda>v. vr_impressions v \<ge> test_minSampleSize test) vrs)"

definition getTestResults :: "stats \<Rightarrow> string \<Rightarrow> abStore \<Rightarrow> error + abTestResults" where
  "getTestResults st tid s =
     (case findTest tid s of
        None \<Rightarrow> Inl (Error ''Test not found'')
      | Some test \<Rightarrow>
          let variantResults = map variantResultOf (variantsOf tid s);
              results = \<lparr>testId = test_id test,
                         status = test_status test,
                         variants = variantResults,
                         winner = None,
                         statisticalSignificance = None,
                         recommendedAction = None,
                         startDate = test_startDate test,
                         endDate = test_endDate test\<rparr>
          in if enoughData test variantResults then
               let an = performStatisticalAnalysis st variantResults (test_confidenceLevel test)
               in Inr (results
                        \<lparr>statisticalSignificance := Some (significance an),
                         winner := analysisWinner an,
                         recommendedAction := Some (recommendation an),
                         variants :=
                           map (\<lambda>v. v\<lparr>vr_confidence :=
                                        Some (calculateConfidenceInterval st (vr_conversions v)
                                                (vr_impressions v) (test_confidenceLevel test))\<rparr>)
                               variantResults\<rparr>)
             else Inr results)"

text \<open>
  The claim-side reading of the traffic split: the cumulative percentage up to and
  including the variant at index \<open>k\<close>.
\<close>

definition cumulativeTraffic :: "abTestVariant list \<Rightarrow> nat \<Rightarrow> real" where
  "cumulativeTraffic vs k = sum_list (map variant_trafficPercent (take (Suc k) vs))"

text \<open>The \<^verbatim>\<open>ASSIGNED\<close> rows of a test and a lead.\<close>

definition assignmentsOf :: "string \<Rightarrow> string \<Rightarrow> abStore \<Rightarrow> abTestResult list" where
  "assignmentsOf tid lid s = filter (isAssignment tid lid) (testResults s)"

text \<open>The row that \<open>assignVariant\<close> writes.\<close>

definition assignedRow :: "string \<Rightarrow> string \<Rightarrow> string \<Rightarrow> abTestResult" where
  "assignedRow tid vid lid =
     \<lparr>result_testId = tid, result_variantId = vid, result_leadId = lid,
      result_event = ASSIGNED, result_value = None\<rparr>"

section \<open>Feature extraction (customScoringService.ts)\<close>

text \<open>
  The only caller of \<open>applyAlgorithm\<close>, \<open>scoreLeadWithAlgorithm\<close>, passes it the vector that
  \<open>extractLeadFeatures\<close> builds from a lead. A lead is read through the fields below; an
  optional string is truthy when it is there and not empty. The instants of the activities
  are milliseconds.
\<close>

record companyInfo =
  employeeCount :: "real option"
  companyRevenue :: jsvalue
  technologies :: "string list option"

record lead =
  leadEmail :: "string option"
  leadJobTitle :: "string option"
  leadIndustry :: "string option"
  leadLinkedinUrl :: "string option"
  leadWebsite :: "string option"
  leadPhone :: "string option"
  leadCompanyInfo :: "companyInfo option"
  leadActivities :: "int list"
  leadCampaigns :: "string list"
  leadFormSubmission :: bool

definition truthy :: "string option \<Rightarrow> bool" where
  "truthy s = (case s of None \<Rightarrow> False | Some x \<Rightarrow> x \<noteq> [])"

text \<open>\<^verbatim>\<open>String.prototype.includes\<close> and, for the letters A to Z, \<^verbatim>\<open>toLowerCase\<close>.\<close>

fun includesStr :: "string \<Rightarrow> string \<Rightarrow> bool" where
  "includesStr [] sub = (sub = [])"
| "includesStr (c # cs) sub = (take (length sub) (c # cs) = sub \<or> includesStr cs sub)"

definition lowerChar :: "char \<Rightarrow> char" where
  "lowerChar c =
     (let n = (of_char c :: nat) in if 65 \<le> n \<and> n \<le> 90 then char_of (n + 32) else c)"

definition toLowerCase :: "string \<Rightarrow> string" where
  "toLowerCase s = map lowerChar s"

definition normalizeCompanySize :: "real option \<Rightarrow> real" where
  "normalizeCompanySize employees =
     (case employees of
        None \<Rightarrow> 0
      | Some n \<Rightarrow>
          if n = 0 then 0
          else if n \<ge> 1000 then 100
          else if n \<ge> 500 then 85
          else if n \<ge> 200 then 70
          else if n \<ge> 50 then 55
          else if n \<ge> 10 then 40
          else 25)"

definition getIndustryScore :: "string option \<Rightarrow> real" where
  "getIndustryScore industry =
     (if \<not> truthy industry then 50
      else
        let industryLower = toLowerCase (the industry) in
        if list_ex (includesStr industryLower)
             [''software'', ''saas'', ''technology'', ''fintech'', ''healthcare'', ''finance'']
        then 90
        else if list_ex (includesStr industryLower)
             [''retail'', ''manufacturing'', ''consulting'', ''marketing'', ''education'']
        then 70
        else 50)"

definition getSeniorityLevel :: "string option \<Rightarrow> real" where
  "getSeniorityLevel jobTitle =
     (if \<not> truthy jobTitle then 50
      else
        let title = toLowerCase (the jobTitle) in
        if includesStr title ''ceo'' \<or> includesStr title ''founder'' \<or> includesStr title ''president''
        then 100
        else if includesStr title ''vp'' \<or> includesStr title ''vice president'' then 90
        else if includesStr title ''director'' then 80
        else if includesStr title ''manager'' \<or> includesStr title ''head'' then 70
        else if includesStr title ''lead'' \<or> includesStr title ''senior'' then 60
        else 40)"

definition getDepartmentRelevance :: "string option \<Rightarrow> real" where
  "getDepartmentRelevance jobTitle =
     (if \<not> truthy jobTitle then 50
      else
        let title = toLowerCase (the jobTitle) in
        if includesStr title ''marketing'' \<or> includesStr title ''sales'' \<or> includesStr title ''business''
        then 90
        else if includesStr title ''operations'' \<or> includesStr title ''strategy'' then 80
        else if includesStr title ''product'' \<or> includesStr title ''technology'' then 70
        else 50)"

definition assessContactQuality :: "lead \<Rightarrow> real" where
  "assessContactQuality l =
     (let q0 = 50;
          q1 = (if truthy (leadEmail l) \<and> \<not> includesStr (the (leadEmail l)) ''gmail'' \<and>
                   \<not> includesStr (the (leadEmail l)) ''yahoo''
                then q0 + 20 else q0);
          q2 = (if truthy (leadLinkedinUrl l) then q1 + 15 else q1);
          q3 = (if truthy (leadWebsite l) then q2 + 10 else q2);
          q4 = (if truthy (leadPhone l) then q3 + 5 else q3)
      in min 100 q4)"

text \<open>The two placeholders of the source: fixed engagement metrics, fixed response time.\<close>

definition calculateEngagementMetrics :: "real \<times> real \<times> real" where
  "calculateEngagementMetrics = (50, 0, 0)"

definition calculateResponseTime :: "int list \<Rightarrow> real" where
  "calculateResponseTime acts = 50"

text \<open>\<open>now\<close> is \<^verbatim>\<open>Date.now()\<close>; an activity is recent when it is younger than seven days.\<close>

definition assessBuyingIntent :: "int \<Rightarrow> lead \<Rightarrow> real" where
  "assessBuyingIntent now l =
     (let i0 = 30;
          i1 = (if leadFormSubmission l then i0 + 40 else i0);
          i2 = (if length (leadCampaigns l) > 2 then i1 + 20 else i1);
          recentActivities = filter (\<lambda>a. a > now - 7 * 24 * 60 * 60 * 1000) (leadActivities l);
          i3 = i2 + min 30 (real (length recentActivities) * 5)
      in min 100 i3)"

text \<open>
  The class calls \<^verbatim>\<open>this.normalizeRevenue\<close> and defines no method of that name. What the
  call does is the parameter \<open>normalizeRevenue\<close> of the model: it returns a value, or it
  fails (as it does in the class as it stands, with a \<^verbatim>\<open>TypeError\<close>) and the extraction
  fails with it.
\<close>

definition extractLeadFeatures ::
  "(jsvalue \<Rightarrow> error + jsvalue) \<Rightarrow> int \<Rightarrow> lead \<Rightarrow> error + leadFeatures" where
  "extractLeadFeatures normalizeRevenue now l =
     (let companyFeatures =
            (case leadCompanyInfo l of
               None \<Rightarrow> Inr []
             | Some company \<Rightarrow>
                 (case normalizeRevenue (companyRevenue company) of
                    Inl e \<Rightarrow> Inl e
                  | Inr revenueEstimate \<Rightarrow>
                      Inr [(''companySize'', Number (normalizeCompanySize (employeeCount company))),
                           (''industryScore'', Number (getIndustryScore (leadIndustry l))),
                           (''revenueEstimate'', revenueEstimate),
                           (''techStack'',
                            Array (case technologies company of None \<Rightarrow> [] | Some ts \<Rightarrow> ts))]))
      in case companyFeatures of
           Inl e \<Rightarrow> Inl e
         | Inr cf \<Rightarrow>
             (case calculateEngagementMetrics of
                (emailEngagement, websiteVisits, contentDownloads) \<Rightarrow>
                  Inr (cf @
                       [(''seniorityLevel'', Number (getSeniorityLevel (leadJobTitle l))),
                        (''departmentRelevance'', Number (getDepartmentRelevance (leadJobTitle l))),
                        (''contactQuality'', Number (assessContactQuality l)),
                        (''emailEngagement'', Number emailEngagement),
                        (''websiteVisits'', Number websiteVisits),
                        (''contentDownloads'', Number contentDownloads),
                        (''responseTime'', Number (calculateResponseTime (leadActivities l))),
                        (''buyingIntent'', Number (assessBuyingIntent now l)),
                        (''campaignInteractions'', Number (real (length (leadCampaigns l)))),
                        (''formSubmissions'', Number (if leadFormSubmission l then 1 else 0))])))"

section \<open>The executions behind the campaign metrics\<close>

text \<open>
  The claim-side reading of the counts: the executions of a campaign in the store, and
  how many of them were delivered, opened and converted.
\<close>

definition executionsOf :: "string \<Rightarrow> campaignStore \<Rightarrow> campaignExecution list" where
  "executionsOf cid s = filter (\<lambda>e. execCampaignId e = cid) (executions s)"

definition deliveredOf :: "string \<Rightarrow> campaignStore \<Rightarrow> campaignExecution list" where
  "deliveredOf cid s =
     filter (\<lambda>e. execStatus e \<noteq> FAILED \<and> execStatus e \<noteq> executionStatus.BOUNCED)
       (executionsOf cid s)"

definition openedOf :: "string \<Rightarrow> campaignStore \<Rightarrow> campaignExecution list" where
  "openedOf cid s = filter (\<lambda>e. openedAt e \<noteq> None) (executionsOf cid s)"

definition convertedOf :: "string \<Rightarrow> campaignStore \<Rightarrow> campaignExecution list" where
  "convertedOf cid s = filter converted (executionsOf cid s)"

section \<open>Concrete data\<close>

text \<open>Small inputs on which the operations are evaluated below.\<close>

definition alg0 :: algorithm where
  "alg0 = \<lparr>weights = [(''companySize'', 1)], thresholds = \<lparr>hot = 80, warm = 50, cold = 0\<rparr>\<rparr>"

definition alg1 :: algorithm where
  "alg1 = \<lparr>weights = [(''websiteVisits'', 0), (''seniorityLevel'', 2)],
           thresholds = \<lparr>hot = 80, warm = 50, cold = 0\<rparr>\<rparr>"

definition alg2 :: algorithm where
  "alg2 = \<lparr>weights = [(''companySize'', 1), (''industryScore'', 2)],
           thresholds = \<lparr>hot = 80, warm = 50, cold = 0\<rparr>\<rparr>"

definition algEmpty :: algorithm where
  "algEmpty = \<lparr>weights = [], thresholds = \<lparr>hot = 80, warm = 50, cold = 0\<rparr>\<rparr>"

definition features1 :: leadFeatures where
  "features1 = [(''websiteVisits'', Number 70), (''seniorityLevel'', Number 90)]"

definition features2 :: leadFeatures where
  "features2 = [(''companySize'', Number 50), (''industryScore'', Number 0)]"

definition campaignStore1 :: campaignStore where
  "campaignStore1 =
     \<lparr>campaigns = [\<lparr>campaignRowId = ''c1'', campaignRowName = ''Launch'',
                    campaignRowType = ''EMAIL'', campaignCreatedAt = 0\<rparr>],
      executions =
        [\<lparr>execCampaignId = ''c1'', execStatus = FAILED, openedAt = None, clickedAt = None,
          repliedAt = None, convertedAt = None, execRevenue = None, emailEvents = []\<rparr>,
         \<lparr>execCampaignId = ''c1'', execStatus = executionStatus.DELIVERED, openedAt = None,
          clickedAt = None, repliedAt = None, convertedAt = None, execRevenue = None,
          emailEvents = [emailEventType.DELIVERED]\<rparr>],
      analytics = Map.empty\<rparr>"

definition campaignStore0 :: campaignStore where
  "campaignStore0 = campaignStore1\<lparr>executions := []\<rparr>"

definition test1 :: abTest where
  "test1 = \<lparr>test_id = ''t1'', test_name = ''E1'', test_status = RUNNING,
            test_confidenceLevel = 95, test_minSampleSize = 100,
            test_startDate = Some 0, test_endDate = None\<rparr>"

definition variantA :: abTestVariant where
  "variantA = \<lparr>variant_id = ''vA'', variant_testId = ''t1'', variant_name = ''A'',
               variant_trafficPercent = 50, variant_impressions = 1000, variant_clicks = 0,
               variant_conversions = 200, variant_revenue = 300\<rparr>"

definition variantB :: abTestVariant where
  "variantB = \<lparr>variant_id = ''vB'', variant_testId = ''t1'', variant_name = ''B'',
               variant_trafficPercent = 50, variant_impressions = 1000, variant_clicks = 0,
               variant_conversions = 150, variant_revenue = 450\<rparr>"

definition abStore1 :: abStore where
  "abStore1 = \<lparr>tests = [test1], testVariants = [variantA, variantB], testResults = [],
               activities = [], leads = [''lead1'']\<rparr>"

text \<open>\<open>abStore1\<close> after the lead has been assigned to the first variant.\<close>

definition abStore1a :: abStore where
  "abStore1a =
     abStore1
       \<lparr>testResults := [\<lparr>result_testId = ''t1'', result_variantId = ''vA'',
                         result_leadId = ''lead1'', result_event = ASSIGNED,
                         result_value = None\<rparr>],
        activities := [\<lparr>activity_leadId = ''lead1'', activity_type = ''AB_TEST_ASSIGNED'',
                        activity_description = ''Assigned to A/B test variant: A'',
                        activity_metadata = [(''testId'', ''t1''), (''variantId'', ''vA''),
                                             (''variantName'', ''A'')]\<rparr>]\<rparr>"

text \<open>A split that adds up to 99.995, which \<open>createAbTest\<close> accepts.\<close>

definition abStore5 :: abStore where
  "abStore5 =
     abStore1\<lparr>testVariants := [variantA, variantB\<lparr>variant_trafficPercent := 49995 / 1000\<rparr>]\<rparr>"

text \<open>Two variants below the minimum sample size of 100, with very different rates.\<close>

definition abStore4 :: abStore where
  "abStore4 =
     abStore1\<lparr>testVariants :=
       [variantA\<lparr>variant_impressions := 10, variant_conversions := 9\<rparr>,
        variantB\<lparr>variant_impressions := 5, variant_conversions := 0\<rparr>]\<rparr>"

definition variantC :: abTestVariant where
  "variantC = \<lparr>variant_id = ''vC'', variant_testId = ''t1'', variant_name = ''C'',
               variant_trafficPercent = 0, variant_impressions = 1000, variant_clicks = 0,
               variant_conversions = 100, variant_revenue = 0\<rparr>"

text \<open>A test with three variants, each with enough impressions.\<close>

definition abStore7 :: abStore where
  "abStore7 = abStore1\<lparr>testVariants := [variantA, variantB, variantC]\<rparr>"

text \<open>
  A stand-in for the statistics package in concrete evaluations: a step function that
  lies below the standard normal distribution function (whose value at 2 exceeds 0.9772),
  and the constant 1.96, the quantile that belongs to a confidence level of 95.
\<close>

definition stepStats :: stats where
  "stepStats =
     \<lparr>cumulativeStdNormalProbability =
        (\<lambda>z. if jge z (Num 2) then Num (9772 / 10000) else Num (1 / 2)),
      probit = (\<lambda>p. Num (196 / 100))\<rparr>"

text \<open>A lead without company data, and a revenue normaliser that fails as the class does.\<close>

definition lead1 :: lead where
  "lead1 = \<lparr>leadEmail = Some ''ann@acme.io'', leadJobTitle = Some ''VP Marketing'',
            leadIndustry = Some ''Software'', leadLinkedinUrl = None, leadWebsite = None,
            leadPhone = None, leadCompanyInfo = None, leadActivities = [],
            leadCampaigns = [], leadFormSubmission = False\<rparr>"

definition missingMethod :: "jsvalue \<Rightarrow> error + jsvalue" where
  "missingMethod v = Inl TypeError"

text \<open>The vector that the extraction builds from \<open>lead1\<close>.\<close>

definition leadFeatures1 :: leadFeatures where
  "leadFeatures1 =
     [(''seniorityLevel'', Number 90), (''departmentRelevance'', Number 90),
      (''contactQuality'', Number 70), (''emailEngagement'', Number 50),
      (''websiteVisits'', Number 0), (''contentDownloads'', Number 0),
      (''responseTime'', Number 50), (''buyingIntent'', Number 30),
      (''campaignInteractions'', Number 0), (''formSubmissions'', Number 0)]"

section \<open>Properties of the weighted scoring\<close>

lemma fold_accumulate:
  "fold (accumulate ws) fs (s, w, is) =
     (s + (\<Sum>e\<leftarrow>presentWeighted ws fs. normalizeFeatureValue (snd e) * weightOf ws (fst e)),
      w + (\<Sum>e\<leftarrow>presentWeighted ws fs. weightOf ws (fst e)),
      is @ map (factorOf ws) (presentWeighted ws fs))"
  by (induction fs arbitrary: s w "is")
     (auto simp: accumulate_def presentWeighted_def factorOf_def Let_def)

lemma weightedSum_eq:
  "weightedSum ws fs =
     ((\<Sum>e\<leftarrow>presentWeighted ws fs. normalizeFeatureValue (snd e) * weightOf ws (fst e)),
      (\<Sum>e\<leftarrow>presentWeighted ws fs. weightOf ws (fst e)),
      map (factorOf ws) (presentWeighted ws fs))"
  by (simp add: weightedSum_def fold_accumulate)

lemma finalScore_eq: "finalScore ws fs = specScore ws fs"
  by (simp add: finalScore_def weightedSum_eq specScore_def Let_def)

lemma js_round_bounds:
  "0 \<le> x \<Longrightarrow> x \<le> of_int n \<Longrightarrow> 0 \<le> js_round x \<and> js_round x \<le> of_int n"
  unfolding js_round_def by (auto simp: floor_le_iff le_floor_iff)

lemma round2_bounds:
  assumes "0 \<le> x" and "x \<le> of_int n"
  shows "0 \<le> round2 x \<and> round2 x \<le> of_int n"
proof -
  have "0 \<le> x * 100" and "x * 100 \<le> of_int (n * 100)"
    using assms by simp_all
  from js_round_bounds [OF this] show ?thesis
    by (simp add: round2_def)
qed

lemma round2_0: "round2 0 = 0"
  by (simp add: round2_def js_round_def)

lemma jround2_Num: "jround2 (Num c) = Num (round2 c)"
  by (simp add: jround2_def round2_def)

lemma normalize_bounds: "0 \<le> normalizeFeatureValue v \<and> normalizeFeatureValue v \<le> 1"
  by (cases v) auto

lemma weightOf_nonneg:
  assumes "\<forall>e \<in> set ws. 0 \<le> snd e"
  shows "0 \<le> weightOf ws f"
proof (cases "map_of ws f")
  case None
  then show ?thesis by (simp add: weightOf_def)
next
  case (Some w)
  then have "(f, w) \<in> set ws" by (rule map_of_SomeD)
  with assms have "0 \<le> w" by force
  with Some show ?thesis by (simp add: weightOf_def)
qed

lemma specScore_bounds:
  assumes "\<forall>e \<in> set ws. 0 \<le> snd e"
  shows "0 \<le> specScore ws fs \<and> specScore ws fs \<le> 100"
proof -
  let ?P = "presentWeighted ws fs"
  let ?num = "\<Sum>e\<leftarrow>?P. normalizeFeatureValue (snd e) * weightOf ws (fst e)"
  let ?den = "\<Sum>e\<leftarrow>?P. weightOf ws (fst e)"
  have w: "0 \<le> weightOf ws f" for f
    using assms by (rule weightOf_nonneg)
  have "0 \<le> ?num"
    by (rule sum_list_nonneg) (auto simp: normalize_bounds w)
  moreover have "?num \<le> ?den"
    by (rule sum_list_mono) (simp add: mult_left_le_one_le normalize_bounds w)
  ultimately show ?thesis
    by (auto simp: specScore_def Let_def divide_le_eq)
qed

lemma completeness_bounds:
  assumes "ws \<noteq> [] \<or> 0 < presentCount fs"
  shows "\<exists>c. completeness ws fs = Num c \<and> 0 \<le> c \<and> c \<le> 1"
proof (cases "ws = []")
  case True
  with assms show ?thesis by (simp add: completeness_def)
next
  case False
  then show ?thesis by (simp add: completeness_def)
qed

text \<open>
  C3, as the code has it. The score of the result is the quotient of the two sums over
  the features that have both a value and a non-zero weight, times 100, rounded to two
  decimals, and 0 when the sum of those weights is not positive; weights of absent features
  enter neither sum. With no such feature the score is 0. The confidence counts every
  feature that has a value, weighted or not: it is 0 when the vector has no value at all
  and the weight map has an entry.
\<close>

theorem weighted_score_formula:
  "score (applyAlgorithm fs alg) = round2 (specScore (weights alg) fs) \<and>
   (presentWeighted (weights alg) fs = [] \<longrightarrow> score (applyAlgorithm fs alg) = 0) \<and>
   (presentCount fs = 0 \<and> weights alg \<noteq> [] \<longrightarrow>
      score (applyAlgorithm fs alg) = 0 \<and> confidence (applyAlgorithm fs alg) = Num 0)"
proof -
  have s: "score (applyAlgorithm fs alg) = round2 (specScore (weights alg) fs)"
    by (simp add: applyAlgorithm_def Let_def finalScore_eq)
  have e: "score (applyAlgorithm fs alg) = 0" if "presentWeighted (weights alg) fs = []"
    using that by (simp add: s specScore_def round2_0)
  have p: "presentWeighted ws fs = []" if "presentCount fs = 0" for ws
    using that by (auto simp: presentCount_def presentWeighted_def filter_empty_conv)
  have c: "confidence (applyAlgorithm fs alg) = Num 0"
    if "presentCount fs = 0" and "weights alg \<noteq> []"
    using that
    by (simp add: applyAlgorithm_def Let_def completeness_def jround2_Num round2_0)
  from s e p c show ?thesis by blast
qed

theorem weighted_score_formula_witness:
  "presentWeighted (weights alg0) [(''companySize'', Undefined)] = [] \<and>
   presentCount [(''companySize'', Undefined)] = 0 \<and> weights alg0 \<noteq> [] \<and>
   score (applyAlgorithm [(''companySize'', Undefined)] alg0) = 0 \<and>
   confidence (applyAlgorithm [(''companySize'', Undefined)] alg0) = Num 0"
  using weighted_score_formula [of "[(''companySize'', Undefined)]" alg0]
  by (simp add: alg0_def presentWeighted_def presentCount_def)

text \<open>
  Where C3 as stated fails. A vector whose only value belongs to a feature without a weight
  has no weighted feature present, yet its confidence is 1, not 0. And the score of a vector
  whose quotient is \<open>50 / 3\<close> is the rounded 16.67.
\<close>

theorem weighted_score_counterexample:
  "presentWeighted (weights alg0) [(''seniorityLevel'', Number 50)] = [] \<and>
   confidence (applyAlgorithm [(''seniorityLevel'', Number 50)] alg0) = Num 1 \<and>
   confidence (applyAlgorithm [(''seniorityLevel'', Number 50)] alg0) \<noteq> Num 0 \<and>
   specScore (weights alg2) features2 = 50 / 3 \<and>
   score (applyAlgorithm features2 alg2) = 1667 / 100 \<and>
   score (applyAlgorithm features2 alg2) \<noteq> specScore (weights alg2) features2"
  by (simp add: alg0_def alg2_def features2_def presentWeighted_def weighted_def
      applyAlgorithm_def Let_def completeness_def presentCount_def jround2_Num round2_def
      js_round_def finalScore_eq specScore_def weightOf_def)

lemma extract_presentCount:
  assumes "extractLeadFeatures normalizeRevenue now l = Inr fs"
  shows "10 \<le> presentCount fs"
  using assms
  by (auto simp: extractLeadFeatures_def calculateEngagementMetrics_def presentCount_def
      Let_def split: option.splits sum.splits)

text \<open>
  C8. With non-negative weights the score of every feature vector lies in \<open>[0, 100]\<close>, and
  the confidence is a number in \<open>[0, 1]\<close> for every vector that has a value (or is scored
  with a weight map that has an entry). Every vector that the feature extraction returns
  has a value, so this holds of every vector that is scored. Every feature value
  normalises into \<open>[0, 1]\<close>.
\<close>

theorem score_and_confidence_bounds:
  assumes "\<forall>e \<in> set (weights alg). 0 \<le> snd e"
  shows "0 \<le> score (applyAlgorithm fs alg) \<and> score (applyAlgorithm fs alg) \<le> 100 \<and>
         (0 < presentCount fs \<or> weights alg \<noteq> [] \<longrightarrow>
            (\<exists>c. confidence (applyAlgorithm fs alg) = Num c \<and> 0 \<le> c \<and> c \<le> 1)) \<and>
         (extractLeadFeatures normalizeRevenue now l = Inr fs \<longrightarrow> 0 < presentCount fs) \<and>
         (\<forall>v. 0 \<le> normalizeFeatureValue v \<and> normalizeFeatureValue v \<le> 1)"
proof -
  from specScore_bounds [OF assms]
  have "0 \<le> specScore (weights alg) fs" and "specScore (weights alg) fs \<le> of_int 100"
    by simp_all
  from round2_bounds [OF this]
  have s: "0 \<le> score (applyAlgorithm fs alg) \<and> score (applyAlgorithm fs alg) \<le> 100"
    by (simp add: applyAlgorithm_def Let_def finalScore_eq)
  have c: "\<exists>c. confidence (applyAlgorithm fs alg) = Num c \<and> 0 \<le> c \<and> c \<le> 1"
    if h: "0 < presentCount fs \<or> weights alg \<noteq> []"
  proof -
    from h have "weights alg \<noteq> [] \<or> 0 < presentCount fs" by auto
    from completeness_bounds [OF this] obtain c
      where c: "completeness (weights alg) fs = Num c" "0 \<le> c" "c \<le> of_int 1"
      by auto
    from round2_bounds [OF c(2,3)] c(1) show ?thesis
      by (simp add: applyAlgorithm_def Let_def jround2_Num)
  qed
  have e: "0 < presentCount fs" if "extractLeadFeatures normalizeRevenue now l = Inr fs"
    using extract_presentCount [OF that] by simp
  from s c e normalize_bounds show ?thesis by blast
qed

theorem score_and_confidence_bounds_witness:
  "list_all (\<lambda>e. 0 \<le> snd e) (weights alg1) \<and>
   extractLeadFeatures missingMethod 0 lead1 = Inr leadFeatures1 \<and>
   0 < presentCount leadFeatures1 \<and>
   0 \<le> score (applyAlgorithm leadFeatures1 alg1) \<and>
   score (applyAlgorithm leadFeatures1 alg1) \<le> 100 \<and>
   (\<exists>c. confidence (applyAlgorithm leadFeatures1 alg1) = Num c \<and> 0 \<le> c \<and> c \<le> 1)"
proof -
  have h: "\<forall>e \<in> set (weights alg1). 0 \<le> snd e" by (simp add: alg1_def)
  have x: "extractLeadFeatures missingMethod 0 lead1 = Inr leadFeatures1"
    by code_simp
  note t = score_and_confidence_bounds [OF h, of leadFeatures1 missingMethod 0 lead1]
  from t x have p: "0 < presentCount leadFeatures1" by blast
  with t have "\<exists>c. confidence (applyAlgorithm leadFeatures1 alg1) = Num c \<and> 0 \<le> c \<and> c \<le> 1"
    by blast
  with t x p h show ?thesis by (simp add: list_all_iff)
qed

text \<open>
  A vector without any value is one that no extraction returns. Scored with an empty
  weight map it divides 0 by 0, and the confidence is not a number.
\<close>

lemma confidence_without_values: "confidence (applyAlgorithm [] algEmpty) = NaN"
  by (simp add: algEmpty_def applyAlgorithm_def Let_def completeness_def presentCount_def
      jround2_def)

lemma map_of_filter_other:
  "g \<noteq> f \<Longrightarrow> map_of (filter (\<lambda>e. fst e \<noteq> f) ws) g = map_of ws g"
  by (induction ws) auto

lemma map_of_filter_self: "map_of (filter (\<lambda>e. fst e \<noteq> f) ws) f = None"
  by (induction ws) auto

lemma zero_weight_lookup:
  assumes "map_of ws f = Some 0"
  shows "weighted (filter (\<lambda>e. fst e \<noteq> f) ws) g = weighted ws g"
    and "weightOf (filter (\<lambda>e. fst e \<noteq> f) ws) g = weightOf ws g"
  using assms
  by (cases "g = f"; simp add: weighted_def weightOf_def map_of_filter_other map_of_filter_self)+

lemma zero_weight_accumulate:
  assumes "map_of ws f = Some 0"
  shows "accumulate (filter (\<lambda>e. fst e \<noteq> f) ws) = accumulate ws"
  by (rule ext, rule ext)
     (auto simp: accumulate_def Let_def zero_weight_lookup [OF assms] split: prod.splits)

lemma zero_weight_not_contributing:
  assumes "map_of ws f = Some 0"
  shows "f \<notin> fst ` set (presentWeighted ws fs)"
  using assms by (auto simp: presentWeighted_def weighted_def)

lemma set_sortImpacts: "set (sortImpacts xs) = set xs"
  by (simp add: sortImpacts_def)

lemma feature_factorOf: "feature (factorOf ws e) = fst e"
  by (simp add: factorOf_def)

lemma presentCount_split:
  "present v \<Longrightarrow> presentCount (fs1 @ (f, v) # fs2) = Suc (presentCount (fs1 @ fs2))"
  by (simp add: presentCount_def)

text \<open>
  C10. A feature with the weight 0 is scored as if the weight map had no entry for it: the
  two sums and the impacts, hence the score, the category and the explanation, are those
  computed with the entry removed; the feature is not among the summed features nor among
  the ranked factors. Its value still counts in the numerator of the completeness ratio,
  which counts every value of the vector.
\<close>

theorem zero_weight_excluded:
  assumes "map_of (weights alg) f = Some 0"
  shows "weightedSum (weights alg) fs = weightedSum (filter (\<lambda>e. fst e \<noteq> f) (weights alg)) fs \<and>
         score (applyAlgorithm fs alg) =
           score (applyAlgorithm fs (alg\<lparr>weights := filter (\<lambda>e. fst e \<noteq> f) (weights alg)\<rparr>)) \<and>
         category (applyAlgorithm fs alg) =
           category (applyAlgorithm fs (alg\<lparr>weights := filter (\<lambda>e. fst e \<noteq> f) (weights alg)\<rparr>)) \<and>
         explanation (applyAlgorithm fs alg) =
           explanation (applyAlgorithm fs (alg\<lparr>weights := filter (\<lambda>e. fst e \<noteq> f) (weights alg)\<rparr>)) \<and>
         f \<notin> fst ` set (presentWeighted (weights alg) fs) \<and>
         f \<notin> feature ` set (topFactors (explanation (applyAlgorithm fs alg))) \<and>
         (\<forall>fs1 v fs2. fs = fs1 @ (f, v) # fs2 \<and> present v \<longrightarrow>
            presentCount fs = Suc (presentCount (fs1 @ fs2))) \<and>
         confidence (applyAlgorithm fs alg) =
           jround2 (jmin (Num 1)
             (jmul (jdiv (Num (real (presentCount fs))) (Num (real (length (weights alg)))))
                   (Num (12 / 10))))"
proof -
  let ?ws' = "filter (\<lambda>e. fst e \<noteq> f) (weights alg)"
  have ws: "weightedSum (weights alg) fs = weightedSum ?ws' fs"
    by (simp add: weightedSum_def zero_weight_accumulate [OF assms])
  then have fin: "finalScore (weights alg) fs = finalScore ?ws' fs"
    by (simp add: finalScore_def)
  have sc: "score (applyAlgorithm fs alg) = score (applyAlgorithm fs (alg\<lparr>weights := ?ws'\<rparr>))"
    by (simp add: applyAlgorithm_def Let_def fin)
  have ca: "category (applyAlgorithm fs alg) = category (applyAlgorithm fs (alg\<lparr>weights := ?ws'\<rparr>))"
    by (simp add: applyAlgorithm_def Let_def fin)
  have ex: "explanation (applyAlgorithm fs alg) =
            explanation (applyAlgorithm fs (alg\<lparr>weights := ?ws'\<rparr>))"
    by (simp add: applyAlgorithm_def Let_def fin ws)
  have nc: "f \<notin> fst ` set (presentWeighted (weights alg) fs)"
    using assms by (rule zero_weight_not_contributing)
  have "set (topFactors (explanation (applyAlgorithm fs alg)))
          \<subseteq> factorOf (weights alg) ` set (presentWeighted (weights alg) fs)"
    using set_take_subset
      [of 5 "sortImpacts (map (factorOf (weights alg)) (presentWeighted (weights alg) fs))"]
    by (simp add: applyAlgorithm_def Let_def weightedSum_eq set_sortImpacts)
  with nc have tf: "f \<notin> feature ` set (topFactors (explanation (applyAlgorithm fs alg)))"
    by (force simp: feature_factorOf)
  have pc: "\<forall>fs1 v fs2. fs = fs1 @ (f, v) # fs2 \<and> present v \<longrightarrow>
            presentCount fs = Suc (presentCount (fs1 @ fs2))"
    by (simp add: presentCount_split)
  have cf: "confidence (applyAlgorithm fs alg) =
           jround2 (jmin (Num 1)
             (jmul (jdiv (Num (real (presentCount fs))) (Num (real (length (weights alg)))))
                   (Num (12 / 10))))"
    by (simp add: applyAlgorithm_def Let_def completeness_def)
  from ws sc ca ex nc tf pc cf show ?thesis by blast
qed

theorem zero_weight_excluded_witness:
  "map_of (weights alg1) ''websiteVisits'' = Some 0 \<and>
   features1 = [] @ (''websiteVisits'', Number 70) # [(''seniorityLevel'', Number 90)] \<and>
   present (Number 70) \<and>
   presentCount features1 = Suc (presentCount ([] @ [(''seniorityLevel'', Number 90)])) \<and>
   score (applyAlgorithm features1 alg1) =
     score (applyAlgorithm features1 (alg1\<lparr>weights := [(''seniorityLevel'', 2)]\<rparr>)) \<and>
   ''websiteVisits'' \<notin> feature ` set (topFactors (explanation (applyAlgorithm features1 alg1)))"
proof -
  have h: "map_of (weights alg1) ''websiteVisits'' = Some 0"
    by (simp add: alg1_def)
  have f: "filter (\<lambda>e. fst e \<noteq> ''websiteVisits'') (weights alg1) = [(''seniorityLevel'', 2)]"
    by (simp add: alg1_def)
  note t = zero_weight_excluded [OF h, of features1, unfolded f]
  from t have s: "score (applyAlgorithm features1 alg1) =
     score (applyAlgorithm features1 (alg1\<lparr>weights := [(''seniorityLevel'', 2)]\<rparr>))"
    by blast
  from t have n: "''websiteVisits'' \<notin>
     feature ` set (topFactors (explanation (applyAlgorithm features1 alg1)))"
    by blast
  have d: "features1 = [] @ (''websiteVisits'', Number 70) # [(''seniorityLevel'', Number 90)]"
    by (simp add: features1_def)
  have p: "present (Number 70)" by simp
  from t d p
  have c: "presentCount features1 = Suc (presentCount ([] @ [(''seniorityLevel'', Number 90)]))"
    by blast
  from h d p c s n show ?thesis by blast
qed

section \<open>Properties of the campaign metrics\<close>

text \<open>
  C9. For a campaign that exists the computation returns. Its counts are those of the
  executions of the campaign in the store, and each rate is 0 whenever its denominator is
  0: delivery and bounce when nothing was sent; open, reply, unsubscribe and conversion
  when nothing was delivered; click when nothing was opened; average revenue when nothing
  was converted. For a campaign without executions every rate is 0.
\<close>

theorem campaign_rates_guarded:
  assumes "find (\<lambda>c. campaignRowId c = cid) (campaigns s) = Some c"
  shows "\<exists>m s'. calculateCampaignMetrics now cid s = Inr (m, s') \<and>
     totalSent m = length (executionsOf cid s) \<and>
     totalDelivered m = length (deliveredOf cid s) \<and>
     totalOpened m = length (openedOf cid s) \<and>
     totalConverted m = length (convertedOf cid s) \<and>
     (executionsOf cid s = [] \<longrightarrow> deliveryRate m = 0 \<and> bounceRate m = 0) \<and>
     (deliveredOf cid s = [] \<longrightarrow>
        openRate m = 0 \<and> replyRate m = 0 \<and> unsubscribeRate m = 0 \<and> conversionRate m = 0) \<and>
     (openedOf cid s = [] \<longrightarrow> clickRate m = 0) \<and>
     (convertedOf cid s = [] \<longrightarrow> averageRevenuePerLead m = 0) \<and>
     (executionsOf cid s = [] \<longrightarrow>
        totalSent m = 0 \<and>
        deliveryRate m = 0 \<and> openRate m = 0 \<and> clickRate m = 0 \<and> replyRate m = 0 \<and>
        bounceRate m = 0 \<and> unsubscribeRate m = 0 \<and> conversionRate m = 0 \<and>
        averageRevenuePerLead m = 0)"
  using assms
  by (simp add: calculateCampaignMetrics_def Let_def round2_0 executionsOf_def deliveredOf_def
      openedOf_def convertedOf_def)

theorem campaign_rates_guarded_witness:
  "find (\<lambda>c. campaignRowId c = ''c1'') (campaigns campaignStore0) =
     Some \<lparr>campaignRowId = ''c1'', campaignRowName = ''Launch'', campaignRowType = ''EMAIL'',
           campaignCreatedAt = 0\<rparr> \<and>
   executionsOf ''c1'' campaignStore0 = [] \<and>
   (\<exists>m s'. calculateCampaignMetrics 7 ''c1'' campaignStore0 = Inr (m, s') \<and>
      totalSent m = 0 \<and>
      deliveryRate m = 0 \<and> openRate m = 0 \<and> clickRate m = 0 \<and> replyRate m = 0 \<and>
      bounceRate m = 0 \<and> unsubscribeRate m = 0 \<and> conversionRate m = 0 \<and>
      averageRevenuePerLead m = 0) \<and>
   length (executionsOf ''c1'' campaignStore1) = 2 \<and>
   openedOf ''c1'' campaignStore1 = [] \<and>
   (\<exists>m s'. calculateCampaignMetrics 7 ''c1'' campaignStore1 = Inr (m, s') \<and>
      totalSent m = 2 \<and> clickRate m = 0)"
proof -
  have h0: "find (\<lambda>c. campaignRowId c = ''c1'') (campaigns campaignStore0) =
     Some \<lparr>campaignRowId = ''c1'', campaignRowName = ''Launch'', campaignRowType = ''EMAIL'',
           campaignCreatedAt = 0\<rparr>"
    by (simp add: campaignStore0_def campaignStore1_def)
  have e0: "executionsOf ''c1'' campaignStore0 = []"
    by (simp add: executionsOf_def campaignStore0_def campaignStore1_def)
  have h1: "find (\<lambda>c. campaignRowId c = ''c1'') (campaigns campaignStore1) =
     Some \<lparr>campaignRowId = ''c1'', campaignRowName = ''Launch'', campaignRowType = ''EMAIL'',
           campaignCreatedAt = 0\<rparr>"
    by (simp add: campaignStore1_def)
  have e1: "length (executionsOf ''c1'' campaignStore1) = 2"
    by (simp add: executionsOf_def campaignStore1_def)
  have o1: "openedOf ''c1'' campaignStore1 = []"
    by (simp add: openedOf_def executionsOf_def campaignStore1_def)
  from campaign_rates_guarded [OF h0, of 7] e0
  have a: "\<exists>m s'. calculateCampaignMetrics 7 ''c1'' campaignStore0 = Inr (m, s') \<and>
      totalSent m = 0 \<and>
      deliveryRate m = 0 \<and> openRate m = 0 \<and> clickRate m = 0 \<and> replyRate m = 0 \<and>
      bounceRate m = 0 \<and> unsubscribeRate m = 0 \<and> conversionRate m = 0 \<and>
      averageRevenuePerLead m = 0"
    by (elim exE conjE) auto
  from campaign_rates_guarded [OF h1, of 7] e1 o1
  have b: "\<exists>m s'. calculateCampaignMetrics 7 ''c1'' campaignStore1 = Inr (m, s') \<and>
      totalSent m = 2 \<and> clickRate m = 0"
    by (elim exE conjE) auto
  from h0 e0 a e1 o1 b show ?thesis by blast
qed

text \<open>The rates where the denominators are not 0, as the service computes them.\<close>

lemma campaign_rate_formulas:
  assumes "calculateCampaignMetrics now cid s = Inr (m, s')"
  shows "deliveryRate m = round2 (if totalSent m > 0 then real (totalDelivered m) / real (totalSent m) * 100 else 0)"
    and "openRate m = round2 (if totalDelivered m > 0 then real (totalOpened m) / real (totalDelivered m) * 100 else 0)"
    and "clickRate m = round2 (if totalOpened m > 0 then real (totalClicked m) / real (totalOpened m) * 100 else 0)"
    and "replyRate m = round2 (if totalDelivered m > 0 then real (totalReplied m) / real (totalDelivered m) * 100 else 0)"
    and "bounceRate m = round2 (if totalSent m > 0 then real (totalBounced m) / real (totalSent m) * 100 else 0)"
    and "unsubscribeRate m = round2 (if totalDelivered m > 0 then real (totalUnsubscribed m) / real (totalDelivered m) * 100 else 0)"
    and "conversionRate m = round2 (if totalDelivered m > 0 then real (totalConverted m) / real (totalDelivered m) * 100 else 0)"
    and "averageRevenuePerLead m = round2 (if totalConverted m > 0 then totalRevenue m / real (totalConverted m) else 0)"
proof -
  have "find (\<lambda>c. campaignRowId c = cid) (campaigns s) \<noteq> None"
  proof
    assume n: "find (\<lambda>c. campaignRowId c = cid) (campaigns s) = None"
    have "calculateCampaignMetrics now cid s = Inl (Error ''Campaign not found'')"
      by (simp add: calculateCampaignMetrics_def n)
    with assms show False by simp
  qed
  then obtain c where c: "find (\<lambda>c. campaignRowId c = cid) (campaigns s) = Some c"
    by blast
  have m: "m = fst (projr (calculateCampaignMetrics now cid s))"
    using assms by simp
  show "deliveryRate m = round2 (if totalSent m > 0 then real (totalDelivered m) / real (totalSent m) * 100 else 0)"
    unfolding m calculateCampaignMetrics_def c
    by (simp only: Let_def option.case sum.sel fst_conv campaignMetrics.select_convs)
  show "openRate m = round2 (if totalDelivered m > 0 then real (totalOpened m) / real (totalDelivered m) * 100 else 0)"
    unfolding m calculateCampaignMetrics_def c
    by (simp only: Let_def option.case sum.sel fst_conv campaignMetrics.select_convs)
  show "clickRate m = round2 (if totalOpened m > 0 then real (totalClicked m) / real (totalOpened m) * 100 else 0)"
    unfolding m calculateCampaignMetrics_def c
    by (simp only: Let_def option.case sum.sel fst_conv campaignMetrics.select_convs)
  show "replyRate m = round2 (if totalDelivered m > 0 then real (totalReplied m) / real (totalDelivered m) * 100 else 0)"
    unfolding m calculateCampaignMetrics_def c
    by (simp only: Let_def option.case sum.sel fst_conv campaignMetrics.select_convs)
  show "bounceRate m = round2 (if totalSent m > 0 then real (totalBounced m) / real (totalSent m) * 100 else 0)"
    unfolding m calculateCampaignMetrics_def c
    by (simp only: Let_def option.case sum.sel fst_conv campaignMetrics.select_convs)
  show "unsubscribeRate m = round2 (if totalDelivered m > 0 then real (totalUnsubscribed m) / real (totalDelivered m) * 100 else 0)"
    unfolding m calculateCampaignMetrics_def c
    by (simp only: Let_def option.case sum.sel fst_conv campaignMetrics.select_convs)
  show "conversionRate m = round2 (if totalDelivered m > 0 then real (totalConverted m) / real (totalDelivered m) * 100 else 0)"
    unfolding m calculateCampaignMetrics_def c
    by (simp only: Let_def option.case sum.sel fst_conv campaignMetrics.select_convs)
  show "averageRevenuePerLead m = round2 (if totalConverted m > 0 then totalRevenue m / real (totalConverted m) else 0)"
    unfolding m calculateCampaignMetrics_def c
    by (simp only: Let_def option.case sum.sel fst_conv campaignMetrics.select_convs)
qed

section \<open>Properties of the variant assignment\<close>

lemma findTest_results [simp]:
  "findTest tid (s\<lparr>testResults := rs\<rparr>) = findTest tid s"
  "findTest tid (s\<lparr>activities := acts\<rparr>) = findTest tid s"
  by (simp_all add: findTest_def)

lemma findTest_member:
  "findTest tid s = Some t \<Longrightarrow> tid \<in> set (map test_id (tests s))"
  by (auto simp: findTest_def find_Some_iff)

lemma walkVariants_member: "walkVariants r c vs = Some v \<Longrightarrow> v \<in> set vs"
  by (induction vs arbitrary: c) (auto simp: Let_def split: if_splits)

lemma selectVariant_member: "selectVariant r vs = Some v \<Longrightarrow> v \<in> set vs"
  by (auto simp: selectVariant_def Let_def dest: walkVariants_member
      split: option.splits list.splits)

lemma selectVariant_nonempty: "vs \<noteq> [] \<Longrightarrow> \<exists>v. selectVariant r vs = Some v"
  by (cases vs) (auto simp: selectVariant_def Let_def split: option.splits)

lemma variantsOf_member:
  "v \<in> set (variantsOf tid s) \<Longrightarrow> variant_id v \<in> set (map variant_id (testVariants s))"
  by (auto simp: variantsOf_def)

lemma assign_existing:
  assumes "findTest tid s = Some t" and "test_status t = RUNNING"
    and "existingAssignment tid lid s = Some a"
  shows "assignVariant r tid lid s = Inr (result_variantId a, s)"
  using assms by (simp add: assignVariant_def)

lemma assign_cases:
  assumes "assignVariant r tid lid s = Inr (v, s')"
  shows "(\<exists>t. findTest tid s = Some t \<and> test_status t = RUNNING) \<and>
         ((\<exists>a. existingAssignment tid lid s = Some a \<and> v = result_variantId a \<and> s' = s) \<or>
          (existingAssignment tid lid s = None \<and>
           (\<exists>acts. s' = s\<lparr>testResults := testResults s @ [assignedRow tid v lid],
                        activities := acts\<rparr>)))"
  using assms
  by (auto simp: assignVariant_def createResult_def createActivity_def assignedRow_def
      split: option.splits if_splits sum.splits)

lemma assign_fresh:
  assumes "findTest tid s = Some t" and "test_status t = RUNNING"
    and "existingAssignment tid lid s = None"
    and "selectVariant r (variantsOf tid s) = Some x" and "lid \<in> set (leads s)"
  shows "\<exists>s'. assignVariant r tid lid s = Inr (variant_id x, s')"
proof -
  have "tid \<in> set (map test_id (tests s))"
    using assms(1) by (rule findTest_member)
  moreover have "variant_id x \<in> set (map variant_id (testVariants s))"
    using assms(4) by (intro variantsOf_member selectVariant_member)
  ultimately show ?thesis
    using assms by (simp add: assignVariant_def createResult_def createActivity_def)
qed

lemma find_append_cases:
  "find P (xs @ ys) = (case find P xs of None \<Rightarrow> find P ys | Some x \<Rightarrow> Some x)"
  by (induction xs) auto

lemma existing_after_append:
  assumes "existingAssignment tid lid s = None"
  shows "existingAssignment tid lid (s\<lparr>testResults := testResults s @ [assignedRow tid v lid],
                                       activities := acts\<rparr>) = Some (assignedRow tid v lid)"
  using assms
  by (simp add: existingAssignment_def find_append_cases isAssignment_def assignedRow_def)

lemma find_None_filter: "find P xs = None \<Longrightarrow> filter P xs = []"
  by (induction xs) (auto split: if_splits)

lemma find_Some_filter: "find P xs = Some x \<Longrightarrow> filter P xs \<noteq> []"
  by (induction xs) (auto split: if_splits)

text \<open>
  C1. In a running test, a lead that has an \<^verbatim>\<open>ASSIGNED\<close> row gets the variant of that row
  and the store is not written. Hence a second call, whatever its random draw, returns the
  variant of the first and leaves the store as the first call left it; if the store had at
  most one \<^verbatim>\<open>ASSIGNED\<close> row for the pair before, it has exactly one after. The first call
  returns when the test is running, has a variant, and the lead exists.
\<close>

theorem assignVariant_idempotent:
  "(findTest tid s = Some t \<and> test_status t = RUNNING \<and>
    existingAssignment tid lid s = Some a \<longrightarrow>
      assignVariant r1 tid lid s = Inr (result_variantId a, s)) \<and>
   (assignVariant r1 tid lid s = Inr (v, s') \<longrightarrow>
      assignVariant r2 tid lid s' = Inr (v, s') \<and>
      (length (assignmentsOf tid lid s) \<le> 1 \<longrightarrow> length (assignmentsOf tid lid s') = 1)) \<and>
   (findTest tid s = Some t \<and> test_status t = RUNNING \<and> variantsOf tid s \<noteq> [] \<and>
    lid \<in> set (leads s) \<longrightarrow> (\<exists>w s''. assignVariant r1 tid lid s = Inr (w, s'')))"
proof (intro conjI impI)
  assume "findTest tid s = Some t \<and> test_status t = RUNNING \<and>
    existingAssignment tid lid s = Some a"
  then show "assignVariant r1 tid lid s = Inr (result_variantId a, s)"
    by (simp add: assign_existing)
next
  assume first: "assignVariant r1 tid lid s = Inr (v, s')"
  from assign_cases [OF first] obtain t' where
    t': "findTest tid s = Some t'" "test_status t' = RUNNING" by blast
  from assign_cases [OF first] consider
    (old) a' where "existingAssignment tid lid s = Some a'" "v = result_variantId a'" "s' = s"
  | (new) acts where "existingAssignment tid lid s = None"
      "s' = s\<lparr>testResults := testResults s @ [assignedRow tid v lid], activities := acts\<rparr>"
    by blast
  then show "assignVariant r2 tid lid s' = Inr (v, s')"
  proof cases
    case old
    with t' show ?thesis by (simp add: assign_existing)
  next
    case new
    from existing_after_append [OF new(1), where v = v and acts = acts] new(2)
    have "existingAssignment tid lid s' = Some (assignedRow tid v lid)" by simp
    moreover from t' new(2) have "findTest tid s' = Some t'" by simp
    ultimately have "assignVariant r2 tid lid s' = Inr (result_variantId (assignedRow tid v lid), s')"
      using t'(2) by (rule assign_existing [rotated 2])
    then show ?thesis by (simp add: assignedRow_def)
  qed
next
  assume first: "assignVariant r1 tid lid s = Inr (v, s')"
    and le: "length (assignmentsOf tid lid s) \<le> 1"
  from assign_cases [OF first] consider
    (old) a' where "existingAssignment tid lid s = Some a'" "s' = s"
  | (new) acts where "existingAssignment tid lid s = None"
      "s' = s\<lparr>testResults := testResults s @ [assignedRow tid v lid], activities := acts\<rparr>"
    by blast
  then show "length (assignmentsOf tid lid s') = 1"
  proof cases
    case old
    from old(1) have "assignmentsOf tid lid s \<noteq> []"
      by (simp add: existingAssignment_def assignmentsOf_def find_Some_filter)
    with le old(2) show ?thesis by (cases "assignmentsOf tid lid s") auto
  next
    case new
    from new(1) have "assignmentsOf tid lid s = []"
      by (simp add: existingAssignment_def assignmentsOf_def find_None_filter)
    with new(2) show ?thesis
      by (simp add: assignmentsOf_def isAssignment_def assignedRow_def)
  qed
next
  assume h: "findTest tid s = Some t \<and> test_status t = RUNNING \<and> variantsOf tid s \<noteq> [] \<and>
    lid \<in> set (leads s)"
  show "\<exists>w s''. assignVariant r1 tid lid s = Inr (w, s'')"
  proof (cases "existingAssignment tid lid s")
    case None
    from h selectVariant_nonempty obtain x
      where "selectVariant r1 (variantsOf tid s) = Some x" by blast
    with h None assign_fresh show ?thesis by blast
  next
    case (Some a')
    with h show ?thesis by (auto simp: assign_existing)
  qed
qed

theorem assignVariant_idempotent_witness:
  "assignVariant 30 ''t1'' ''lead1'' abStore1 = Inr (''vA'', abStore1a) \<and>
   assignVariant 80 ''t1'' ''lead1'' abStore1a = Inr (''vA'', abStore1a) \<and>
   length (assignmentsOf ''t1'' ''lead1'' abStore1) \<le> 1 \<and>
   length (assignmentsOf ''t1'' ''lead1'' abStore1a) = 1"
proof -
  have first: "assignVariant 30 ''t1'' ''lead1'' abStore1 = Inr (''vA'', abStore1a)"
    by (simp add: assignVariant_def abStore1_def abStore1a_def test1_def variantA_def
        variantB_def findTest_def existingAssignment_def variantsOf_def selectVariant_def
        createResult_def createActivity_def Let_def)
  have le: "length (assignmentsOf ''t1'' ''lead1'' abStore1) \<le> 1"
    by (simp add: assignmentsOf_def abStore1_def)
  from assignVariant_idempotent [of "''t1''" abStore1 test1 "''lead1''" undefined 30 "''vA''" abStore1a 80]
    first le
  show ?thesis by blast
qed

lemma cumulativeTraffic_0: "cumulativeTraffic (v # vs) 0 = variant_trafficPercent v"
  by (simp add: cumulativeTraffic_def)

lemma cumulativeTraffic_Suc:
  "cumulativeTraffic (v # vs) (Suc k) = variant_trafficPercent v + cumulativeTraffic vs k"
  by (simp add: cumulativeTraffic_def)

lemma walkVariants_first:
  assumes "k < length vs" and "r \<le> c + cumulativeTraffic vs k"
    and "\<forall>j<k. c + cumulativeTraffic vs j < r"
  shows "walkVariants r c vs = Some (vs ! k)"
  using assms
proof (induction vs arbitrary: c k)
  case Nil
  then show ?case by simp
next
  case (Cons v vs)
  show ?case
  proof (cases k)
    case 0
    with Cons.prems show ?thesis by (simp add: cumulativeTraffic_0 Let_def)
  next
    case (Suc k')
    from Cons.prems(3) Suc have "c + cumulativeTraffic (v # vs) 0 < r" by blast
    then have n: "\<not> r \<le> c + variant_trafficPercent v"
      by (simp add: cumulativeTraffic_0)
    have "walkVariants r (c + variant_trafficPercent v) vs = Some (vs ! k')"
    proof (rule Cons.IH)
      show "k' < length vs" using Cons.prems(1) Suc by simp
      show "r \<le> c + variant_trafficPercent v + cumulativeTraffic vs k'"
        using Cons.prems(2) Suc by (simp add: cumulativeTraffic_Suc add.assoc)
      show "\<forall>j<k'. c + variant_trafficPercent v + cumulativeTraffic vs j < r"
      proof (intro allI impI)
        fix j assume "j < k'"
        then have "Suc j < k" using Suc by simp
        with Cons.prems(3) have "c + cumulativeTraffic (v # vs) (Suc j) < r" by blast
        then show "c + variant_trafficPercent v + cumulativeTraffic vs j < r"
          by (simp add: cumulativeTraffic_Suc add.assoc)
      qed
    qed
    with n Suc show ?thesis by (simp add: Let_def)
  qed
qed

lemma walkVariants_none:
  assumes "\<forall>k<length vs. c + cumulativeTraffic vs k < r"
  shows "walkVariants r c vs = None"
  using assms
proof (induction vs arbitrary: c)
  case Nil
  then show ?case by simp
next
  case (Cons v vs)
  from Cons.prems have "c + cumulativeTraffic (v # vs) 0 < r" by auto
  then have n: "\<not> r \<le> c + variant_trafficPercent v"
    by (simp add: cumulativeTraffic_0)
  have "walkVariants r (c + variant_trafficPercent v) vs = None"
  proof (rule Cons.IH, intro allI impI)
    fix k assume "k < length vs"
    then have "Suc k < length (v # vs)" by simp
    with Cons.prems have "c + cumulativeTraffic (v # vs) (Suc k) < r" by blast
    then show "c + variant_trafficPercent v + cumulativeTraffic vs k < r"
      by (simp add: cumulativeTraffic_Suc add.assoc)
  qed
  with n show ?case by (simp add: Let_def)
qed

lemma selectVariant_first:
  assumes "k < length vs" and "r \<le> cumulativeTraffic vs k"
    and "\<forall>j<k. cumulativeTraffic vs j < r"
  shows "selectVariant r vs = Some (vs ! k)"
  using walkVariants_first [of k vs r 0] assms by (simp add: selectVariant_def)

lemma selectVariant_fallback:
  assumes "vs \<noteq> []" and "\<forall>k<length vs. cumulativeTraffic vs k < r"
  shows "selectVariant r vs = Some (vs ! 0)"
  using walkVariants_none [of vs 0 r] assms
  by (cases vs) (simp_all add: selectVariant_def)

text \<open>
  C5, as the code has it. For a running test with at least one variant and a lead without
  assignment, the call returns the variant that the draw selects: the first variant whose
  cumulative traffic percentage reaches the draw, and the first variant of the test when
  the draw lies above every cumulative sum. No draw is left unassigned.
\<close>

theorem assignVariant_selection:
  assumes "findTest tid s = Some t" and "test_status t = RUNNING"
    and "existingAssignment tid lid s = None"
    and "variantsOf tid s \<noteq> []" and "lid \<in> set (leads s)"
  shows "\<exists>v s'. selectVariant r (variantsOf tid s) = Some v \<and>
           assignVariant r tid lid s = Inr (variant_id v, s') \<and>
           (\<forall>k<length (variantsOf tid s).
              r \<le> cumulativeTraffic (variantsOf tid s) k \<and>
              (\<forall>j<k. cumulativeTraffic (variantsOf tid s) j < r) \<longrightarrow>
              v = variantsOf tid s ! k) \<and>
           ((\<forall>k<length (variantsOf tid s). cumulativeTraffic (variantsOf tid s) k < r) \<longrightarrow>
              v = variantsOf tid s ! 0)"
proof -
  from selectVariant_nonempty [OF assms(4)] obtain v
    where v: "selectVariant r (variantsOf tid s) = Some v" by blast
  from assign_fresh [OF assms(1,2,3) v assms(5)] obtain s'
    where s': "assignVariant r tid lid s = Inr (variant_id v, s')" by blast
  have a: "\<forall>k<length (variantsOf tid s).
              r \<le> cumulativeTraffic (variantsOf tid s) k \<and>
              (\<forall>j<k. cumulativeTraffic (variantsOf tid s) j < r) \<longrightarrow>
              v = variantsOf tid s ! k"
    using v selectVariant_first [of _ "variantsOf tid s" r] by auto
  have b: "(\<forall>k<length (variantsOf tid s). cumulativeTraffic (variantsOf tid s) k < r) \<longrightarrow>
              v = variantsOf tid s ! 0"
    using v selectVariant_fallback [OF assms(4), of r] by auto
  from v s' a b show ?thesis by blast
qed

theorem assignVariant_selection_witness:
  "findTest ''t1'' abStore1 = Some test1 \<and> test_status test1 = RUNNING \<and>
   existingAssignment ''t1'' ''lead1'' abStore1 = None \<and>
   variantsOf ''t1'' abStore1 = [variantA, variantB] \<and> ''lead1'' \<in> set (leads abStore1) \<and>
   cumulativeTraffic [variantA, variantB] 0 < 70 \<and>
   70 \<le> cumulativeTraffic [variantA, variantB] 1 \<and>
   (\<exists>s'. selectVariant 70 [variantA, variantB] = Some variantB \<and>
         assignVariant 70 ''t1'' ''lead1'' abStore1 = Inr (variant_id variantB, s'))"
proof -
  have h1: "findTest ''t1'' abStore1 = Some test1"
    by (simp add: findTest_def abStore1_def test1_def)
  have h2: "test_status test1 = RUNNING" by (simp add: test1_def)
  have h3: "existingAssignment ''t1'' ''lead1'' abStore1 = None"
    by (simp add: existingAssignment_def abStore1_def)
  have vs: "variantsOf ''t1'' abStore1 = [variantA, variantB]"
    by (simp add: variantsOf_def abStore1_def variantA_def variantB_def)
  have h4: "variantsOf ''t1'' abStore1 \<noteq> []" by (simp add: vs)
  have h5: "''lead1'' \<in> set (leads abStore1)" by (simp add: abStore1_def)
  have c0: "cumulativeTraffic [variantA, variantB] 0 < 70"
    by (simp add: cumulativeTraffic_def variantA_def)
  have c1: "70 \<le> cumulativeTraffic [variantA, variantB] 1"
    by (simp add: cumulativeTraffic_def variantA_def variantB_def)
  from assignVariant_selection [OF h1 h2 h3 h4 h5, of 70, unfolded vs] obtain v s'
    where v: "selectVariant 70 [variantA, variantB] = Some v"
      and a: "assignVariant 70 ''t1'' ''lead1'' abStore1 = Inr (variant_id v, s')"
      and k: "\<forall>k<length [variantA, variantB].
              70 \<le> cumulativeTraffic [variantA, variantB] k \<and>
              (\<forall>j<k. cumulativeTraffic [variantA, variantB] j < 70) \<longrightarrow>
              v = [variantA, variantB] ! k"
    by (elim exE conjE)
  from k [rule_format, of 1] c0 c1 have "v = variantB" by (simp add: less_Suc_eq)
  with v a h1 h2 h3 vs h5 c0 c1 show ?thesis by auto
qed

text \<open>
  Where C5 as stated fails: with the split 50 / 49.995 and the draw 99.999, above both
  cumulative sums, the lead gets the first variant, not the final one.
\<close>

theorem assignVariant_fallback_counterexample:
  "(0::real) \<le> 99999 / 1000 \<and> (99999::real) / 1000 < 100 \<and>
   map variant_trafficPercent (variantsOf ''t1'' abStore5) = [50, 49995 / 1000] \<and>
   map_sum id fst (assignVariant (99999 / 1000) ''t1'' ''lead1'' abStore5) = Inr ''vA'' \<and>
   variant_id (last (variantsOf ''t1'' abStore5)) = ''vB''"
  by (simp add: assignVariant_def abStore5_def abStore1_def test1_def variantA_def
        variantB_def findTest_def existingAssignment_def variantsOf_def selectVariant_def
        createResult_def createActivity_def Let_def)

section \<open>Properties of the event ledger\<close>

text \<open>
  C6, as the code has it. When the test, the variant and the lead exist, recording an event
  never fails: it appends the event row and adds to the counter of the event's kind, 1 for
  an impression, a click or a conversion, and for a revenue event the given value as it is
  (also a negative one), or 0 when no value is given. The other counters and the other
  variants are unchanged.
\<close>

theorem trackEvent_counters:
  assumes "tid \<in> set (map test_id (tests s))"
    and "vid \<in> set (map variant_id (testVariants s))"
    and "lid \<in> set (leads s)"
  shows "\<exists>s'. trackEvent tid vid lid ev value s = Inr s' \<and>
     testResults s' = testResults s @
       [\<lparr>result_testId = tid, result_variantId = vid, result_leadId = lid,
         result_event = ev, result_value = value\<rparr>] \<and>
     testVariants s' =
       map (\<lambda>v. if variant_id v = vid then
                   v\<lparr>variant_impressions := variant_impressions v + (if ev = IMPRESSION then 1 else 0),
                     variant_clicks := variant_clicks v + (if ev = CLICK then 1 else 0),
                     variant_conversions := variant_conversions v + (if ev = CONVERSION then 1 else 0),
                     variant_revenue := variant_revenue v +
                       (if ev = REVENUE then (case value of None \<Rightarrow> 0 | Some x \<Rightarrow> x) else 0)\<rparr>
                 else v) (testVariants s)"
  using assms
  by (cases ev) (simp_all add: trackEvent_def createResult_def updateVariant_def cong: if_cong)

theorem trackEvent_counters_witness:
  "''t1'' \<in> set (map test_id (tests abStore1)) \<and>
   ''vA'' \<in> set (map variant_id (testVariants abStore1)) \<and>
   ''lead1'' \<in> set (leads abStore1) \<and>
   (\<exists>s'. trackEvent ''t1'' ''vA'' ''lead1'' REVENUE (Some 25) abStore1 = Inr s' \<and>
         map variant_revenue (testVariants s') = [325, 450] \<and>
         map variant_impressions (testVariants s') = [1000, 1000])"
proof -
  have h1: "''t1'' \<in> set (map test_id (tests abStore1))"
    by (simp add: abStore1_def test1_def)
  have h2: "''vA'' \<in> set (map variant_id (testVariants abStore1))"
    by (simp add: abStore1_def variantA_def)
  have h3: "''lead1'' \<in> set (leads abStore1)"
    by (simp add: abStore1_def)
  from trackEvent_counters [OF h1 h2 h3, of REVENUE "Some 25"] obtain s'
    where r: "trackEvent ''t1'' ''vA'' ''lead1'' REVENUE (Some 25) abStore1 = Inr s'"
      and v: "testVariants s' =
       map (\<lambda>v. if variant_id v = ''vA'' then
                   v\<lparr>variant_impressions := variant_impressions v + (if REVENUE = IMPRESSION then 1 else 0),
                     variant_clicks := variant_clicks v + (if REVENUE = CLICK then 1 else 0),
                     variant_conversions := variant_conversions v + (if REVENUE = CONVERSION then 1 else 0),
                     variant_revenue := variant_revenue v +
                       (if REVENUE = REVENUE then (case Some 25 of None \<Rightarrow> 0 | Some x \<Rightarrow> x) else 0)\<rparr>
                 else v) (testVariants abStore1)"
    by (elim exE conjE)
  from v have "map variant_revenue (testVariants s') = [325, 450] \<and>
         map variant_impressions (testVariants s') = [1000, 1000]"
    by (simp add: abStore1_def variantA_def variantB_def)
  with h1 h2 h3 r show ?thesis by auto
qed

text \<open>
  Where C6 as stated fails: a revenue event without a value is recorded and leaves the
  revenue at 300; one with the value -50 is recorded and lowers it to 250. Neither call
  fails.
\<close>

theorem trackEvent_revenue_counterexample:
  "map_sum id (\<lambda>s'. (map variant_revenue (testVariants s'), map result_value (testResults s')))
     (trackEvent ''t1'' ''vA'' ''lead1'' REVENUE None abStore1) = Inr ([300, 450], [None]) \<and>
   map_sum id (\<lambda>s'. (map variant_revenue (testVariants s'), map result_value (testResults s')))
     (trackEvent ''t1'' ''vA'' ''lead1'' REVENUE (Some (- 50)) abStore1)
     = Inr ([250, 450], [Some (- 50)])"
  by (simp add: trackEvent_def createResult_def updateVariant_def abStore1_def test1_def
      variantA_def variantB_def)

section \<open>Properties of the significance evaluation\<close>

lemma getTestResults_below_gate:
  assumes "findTest tid s = Some t"
    and "\<not> enoughData t (map variantResultOf (variantsOf tid s))"
  shows "getTestResults st tid s =
     Inr \<lparr>testId = test_id t, status = test_status t,
          variants = map variantResultOf (variantsOf tid s),
          winner = None, statisticalSignificance = None, recommendedAction = None,
          startDate = test_startDate t, endDate = test_endDate t\<rparr>"
  using assms by (simp add: getTestResults_def Let_def)

lemma getTestResults_gate_passed:
  assumes "findTest tid s = Some t"
    and "enoughData t (map variantResultOf (variantsOf tid s))"
  shows "getTestResults st tid s =
     Inr \<lparr>testId = test_id t, status = test_status t,
          variants =
            map (\<lambda>v. v\<lparr>vr_confidence :=
                         Some (calculateConfidenceInterval st (vr_conversions v)
                                 (vr_impressions v) (test_confidenceLevel t))\<rparr>)
                (map variantResultOf (variantsOf tid s)),
          winner = analysisWinner (performStatisticalAnalysis st
                     (map variantResultOf (variantsOf tid s)) (test_confidenceLevel t)),
          statisticalSignificance = Some (significance (performStatisticalAnalysis st
                     (map variantResultOf (variantsOf tid s)) (test_confidenceLevel t))),
          recommendedAction = Some (recommendation (performStatisticalAnalysis st
                     (map variantResultOf (variantsOf tid s)) (test_confidenceLevel t))),
          startDate = test_startDate t, endDate = test_endDate t\<rparr>"
  using assms by (simp add: getTestResults_def Let_def)

lemma vr_impressions_variantResultOf [simp]:
  "vr_impressions (variantResultOf v) = variant_impressions v"
  by (simp add: variantResultOf_def Let_def)

lemma analysis_not_two:
  assumes "length vs \<noteq> 2"
  shows "performStatisticalAnalysis st vs cl =
     \<lparr>significance = Num 0, analysisWinner = None,
      recommendation = ''Statistical analysis only supported for 2-variant tests''\<rparr>"
proof (cases vs)
  case Nil
  then show ?thesis by (simp add: performStatisticalAnalysis_def)
next
  case (Cons x xs)
  note c1 = this
  show ?thesis
  proof (cases xs)
    case Nil
    with c1 show ?thesis by (simp add: performStatisticalAnalysis_def)
  next
    case (Cons y ys)
    with c1 assms obtain z zs where "ys = z # zs" by (cases ys) auto
    with c1 Cons show ?thesis by (simp add: performStatisticalAnalysis_def)
  qed
qed

lemma analysis_two:
  "performStatisticalAnalysis st [c, tr] cl =
     (if jge (zTestSignificance st c tr) (Num cl) then
        \<lparr>significance = jround2 (zTestSignificance st c tr),
         analysisWinner =
           Some \<lparr>variantId = vr_id (if jgt (rateOf tr) (rateOf c) then tr else c),
                 variantName = vr_name (if jgt (rateOf tr) (rateOf c) then tr else c),
                 improvement = jround2 (jmul (jabs (jdiv (jsub (rateOf tr) (rateOf c)) (rateOf c)))
                                             (Num 100))\<rparr>,
         recommendation = vr_name (if jgt (rateOf tr) (rateOf c) then tr else c) @
                          '' is significantly better. Implement this variant.''\<rparr>
      else if jge (zTestSignificance st c tr) (Num 80) then
        \<lparr>significance = jround2 (zTestSignificance st c tr), analysisWinner = None,
         recommendation = ''Test showing promising results but needs more data''\<rparr>
      else
        \<lparr>significance = jround2 (zTestSignificance st c tr), analysisWinner = None,
         recommendation = ''Continue test - not enough data for conclusive results''\<rparr>)"
  by (simp add: performStatisticalAnalysis_def Let_def)

lemma vr_names [simp]:
  "vr_id (variantResultOf v) = variant_id v"
  "vr_name (variantResultOf v) = variant_name v"
  by (simp_all add: variantResultOf_def Let_def)

lemma rateOf_finite:
  "variant_impressions v \<noteq> 0 \<Longrightarrow>
   rateOf (variantResultOf v) = Num (of_int (variant_conversions v) / of_int (variant_impressions v))"
  by (simp add: rateOf_def variantResultOf_def Let_def)

lemma improvement_finite:
  assumes "0 < variant_impressions a" and "0 < variant_impressions b"
    and "0 < variant_conversions a"
  shows "jround2 (jmul (jabs (jdiv (jsub (rateOf (variantResultOf b)) (rateOf (variantResultOf a)))
                                  (rateOf (variantResultOf a)))) (Num 100))
         = Num (round2 (\<bar>of_int (variant_conversions b) / of_int (variant_impressions b) -
                         of_int (variant_conversions a) / of_int (variant_impressions a)\<bar>
                        / (of_int (variant_conversions a) / of_int (variant_impressions a)) * 100))"
proof -
  define p1 :: real
    where "p1 = of_int (variant_conversions a) / of_int (variant_impressions a)"
  define p2 :: real
    where "p2 = of_int (variant_conversions b) / of_int (variant_impressions b)"
  have pos: "0 < p1" using assms by (simp add: p1_def)
  have r1: "rateOf (variantResultOf a) = Num p1"
    using assms by (simp add: rateOf_finite p1_def)
  have r2: "rateOf (variantResultOf b) = Num p2"
    using assms by (simp add: rateOf_finite p2_def)
  have "jmul (jabs (jdiv (jsub (Num p2) (Num p1)) (Num p1))) (Num 100)
        = Num (\<bar>(p2 - p1) / p1\<bar> * 100)"
    using pos by (simp add: jsub_def)
  also have "\<bar>(p2 - p1) / p1\<bar> = \<bar>p2 - p1\<bar> / p1"
    using pos by (simp add: abs_divide)
  finally have "jround2 (jmul (jabs (jdiv (jsub (Num p2) (Num p1)) (Num p1))) (Num 100))
        = Num (round2 (\<bar>p2 - p1\<bar> / p1 * 100))"
    by (simp add: jround2_Num)
  then show ?thesis
    unfolding r1 r2 by (simp only: p1_def p2_def)
qed

lemma z_bound: "2 \<le> 1 / (20 * sqrt (231 / 800000 :: real))"
proof -
  have "sqrt (231 / 800000) \<le> sqrt ((1 / 40)\<^sup>2 :: real)"
    by (rule real_sqrt_le_mono) (simp add: power2_eq_square)
  then have a: "sqrt (231 / 800000 :: real) \<le> 1 / 40" by simp
  have p: "0 < sqrt (231 / 800000 :: real)" by simp
  from a p show ?thesis by (simp add: le_divide_eq)
qed

lemma significance_abStore1:
  "zTestSignificance stepStats (variantResultOf variantA) (variantResultOf variantB)
     = Num (2386 / 25)"
  using z_bound
  by (simp add: zTestSignificance_def rateOf_def variantResultOf_def variantA_def
      variantB_def stepStats_def Let_def jsub_def)

lemma findTest_abStore1: "findTest ''t1'' abStore1 = Some test1"
  by (simp add: findTest_def abStore1_def test1_def)

lemma variantsOf_abStore1: "variantsOf ''t1'' abStore1 = [variantA, variantB]"
  by (simp add: variantsOf_def abStore1_def variantA_def variantB_def)

lemma rates_abStore1:
  "rateOf (variantResultOf variantA) = Num (1 / 5)"
  "rateOf (variantResultOf variantB) = Num (3 / 20)"
  by (simp_all add: rateOf_def variantResultOf_def variantA_def variantB_def Let_def)

lemma improvement_abStore1:
  "jround2 (jmul (jabs (jdiv (jsub (Num (3 / 20)) (Num (1 / 5))) (Num (1 / 5)))) (Num 100)) = Num 25"
  by (simp add: jsub_def jround2_def js_round_def)

lemma findTest_abStore4: "findTest ''t1'' abStore4 = Some test1"
  by (simp add: findTest_def abStore4_def abStore1_def test1_def)

lemma findTest_abStore7: "findTest ''t1'' abStore7 = Some test1"
  by (simp add: findTest_def abStore7_def abStore1_def test1_def)

lemma variantsOf_abStore7: "variantsOf ''t1'' abStore7 = [variantA, variantB, variantC]"
  by (simp add: variantsOf_def abStore7_def abStore1_def variantA_def variantB_def variantC_def)

lemma gate_abStore7: "enoughData test1 (map variantResultOf (variantsOf ''t1'' abStore7))"
  by (simp add: variantsOf_abStore7 enoughData_def test1_def variantA_def variantB_def
      variantC_def)

text \<open>
  C4, as the code has it. When one of the two variants of a test has fewer impressions
  than the minimum sample size, the evaluation returns a result, and the result has no
  winner, no significance, no recommendation and no confidence interval: the analysis is
  skipped and its fields stay unset.
\<close>

theorem insufficient_data_result:
  assumes "findTest tid s = Some t"
    and "variantsOf tid s = [a, b]"
    and "variant_impressions a < test_minSampleSize t \<or>
         variant_impressions b < test_minSampleSize t"
  shows "\<exists>r. getTestResults st tid s = Inr r \<and>
           winner r = None \<and> statisticalSignificance r = None \<and>
           recommendedAction r = None \<and>
           variants r = [variantResultOf a, variantResultOf b] \<and>
           vr_confidence (variantResultOf a) = None \<and> vr_confidence (variantResultOf b) = None"
proof -
  have "\<not> enoughData t (map variantResultOf (variantsOf tid s))"
    using assms(2,3) by (auto simp: enoughData_def)
  from getTestResults_below_gate [OF assms(1) this, of st] show ?thesis
    by (simp add: assms(2) variantResultOf_def Let_def)
qed

theorem insufficient_data_result_witness:
  "findTest ''t1'' abStore4 = Some test1 \<and>
   variantsOf ''t1'' abStore4 =
     [variantA\<lparr>variant_impressions := 10, variant_conversions := 9\<rparr>,
      variantB\<lparr>variant_impressions := 5, variant_conversions := 0\<rparr>] \<and>
   variant_impressions (variantA\<lparr>variant_impressions := 10, variant_conversions := 9\<rparr>)
     < test_minSampleSize test1 \<and>
   (\<exists>r. getTestResults stepStats ''t1'' abStore4 = Inr r \<and>
        winner r = None \<and> statisticalSignificance r = None \<and> recommendedAction r = None)"
proof -
  have v: "variantsOf ''t1'' abStore4 =
     [variantA\<lparr>variant_impressions := 10, variant_conversions := 9\<rparr>,
      variantB\<lparr>variant_impressions := 5, variant_conversions := 0\<rparr>]"
    by (simp add: variantsOf_def abStore4_def abStore1_def variantA_def variantB_def)
  have l: "variant_impressions (variantA\<lparr>variant_impressions := 10, variant_conversions := 9\<rparr>)
     < test_minSampleSize test1"
    by (simp add: test1_def)
  then have d: "variant_impressions (variantA\<lparr>variant_impressions := 10, variant_conversions := 9\<rparr>)
       < test_minSampleSize test1 \<or>
     variant_impressions (variantB\<lparr>variant_impressions := 5, variant_conversions := 0\<rparr>)
       < test_minSampleSize test1"
    by (rule disjI1)
  from insufficient_data_result [OF findTest_abStore4 v d, of stepStats] obtain r
    where "getTestResults stepStats ''t1'' abStore4 = Inr r" "winner r = None"
      "statisticalSignificance r = None" "recommendedAction r = None"
    by (elim exE conjE)
  with findTest_abStore4 v l show ?thesis by auto
qed

text \<open>
  Where C4 as stated fails: with 10 and 5 impressions against a minimum of 100 the result
  carries neither a significance of 0 nor a recommendation; both fields are unset.
\<close>

theorem insufficient_data_counterexample:
  "map variant_impressions (variantsOf ''t1'' abStore4) = [10, 5] \<and>
   map_sum id (\<lambda>r. (statisticalSignificance r, recommendedAction r, winner r))
     (getTestResults stepStats ''t1'' abStore4) = Inr (None, None, None)"
proof -
  have v: "variantsOf ''t1'' abStore4 =
     [variantA\<lparr>variant_impressions := 10, variant_conversions := 9\<rparr>,
      variantB\<lparr>variant_impressions := 5, variant_conversions := 0\<rparr>]"
    by (simp add: variantsOf_def abStore4_def abStore1_def variantA_def variantB_def)
  have g: "\<not> enoughData test1 (map variantResultOf (variantsOf ''t1'' abStore4))"
    by (simp add: v enoughData_def test1_def)
  show ?thesis
    unfolding getTestResults_below_gate [OF findTest_abStore4 g]
    by (simp add: v)
qed

text \<open>
  C7, as the code has it. For a test whose number of variants is not two the evaluation
  does not fail. It returns a result without winner; when there are three or more variants
  that all pass the sample-size gate, the result carries the significance 0 and the
  recommendation that the analysis is only supported for two variants, and otherwise
  neither field is set.
\<close>

theorem variant_count_not_two:
  assumes "findTest tid s = Some t"
    and "length (variantsOf tid s) \<noteq> 2"
  shows "\<exists>r. getTestResults st tid s = Inr r \<and> winner r = None \<and>
           (if enoughData t (map variantResultOf (variantsOf tid s))
            then statisticalSignificance r = Some (Num 0) \<and>
                 recommendedAction r =
                   Some ''Statistical analysis only supported for 2-variant tests''
            else statisticalSignificance r = None \<and> recommendedAction r = None)"
proof (cases "enoughData t (map variantResultOf (variantsOf tid s))")
  case True
  have "length (map variantResultOf (variantsOf tid s)) \<noteq> 2"
    using assms(2) by simp
  from analysis_not_two [OF this] getTestResults_gate_passed [OF assms(1) True, of st] True
  show ?thesis by simp
next
  case False
  from getTestResults_below_gate [OF assms(1) False, of st] False
  show ?thesis by simp
qed

theorem variant_count_not_two_witness:
  "findTest ''t1'' abStore7 = Some test1 \<and>
   length (variantsOf ''t1'' abStore7) \<noteq> 2 \<and>
   (\<exists>r. getTestResults stepStats ''t1'' abStore7 = Inr r \<and> winner r = None \<and>
        statisticalSignificance r = Some (Num 0) \<and>
        recommendedAction r = Some ''Statistical analysis only supported for 2-variant tests'')"
proof -
  have l: "length (variantsOf ''t1'' abStore7) \<noteq> 2"
    by (simp add: variantsOf_abStore7)
  from variant_count_not_two [OF findTest_abStore7 l, of stepStats] gate_abStore7
  have "\<exists>r. getTestResults stepStats ''t1'' abStore7 = Inr r \<and> winner r = None \<and>
        statisticalSignificance r = Some (Num 0) \<and>
        recommendedAction r = Some ''Statistical analysis only supported for 2-variant tests''"
    by simp
  with findTest_abStore7 l show ?thesis by blast
qed

text \<open>
  Where C7 as stated fails: a test with three variants, each with enough impressions, is
  evaluated to a result with significance 0 and a recommendation, not to a failure.
\<close>

theorem variant_count_counterexample:
  "length (variantsOf ''t1'' abStore7) = 3 \<and>
   map_sum id (\<lambda>r. (statisticalSignificance r, recommendedAction r, winner r))
     (getTestResults stepStats ''t1'' abStore7)
     = Inr (Some (Num 0), Some ''Statistical analysis only supported for 2-variant tests'', None)"
proof -
  have "length (map variantResultOf (variantsOf ''t1'' abStore7)) \<noteq> 2"
    by (simp add: variantsOf_abStore7)
  note a = analysis_not_two [OF this]
  show ?thesis
    unfolding getTestResults_gate_passed [OF findTest_abStore7 gate_abStore7]
    by (simp add: a) (simp add: variantsOf_abStore7)
qed

text \<open>
  C2, as the code has it. For a test with two variants that pass the sample-size gate the
  evaluation returns a result with the rounded significance of the z-test. It has a
  winner exactly when the significance reaches the confidence level of the test; the
  winner is then the second variant if its conversion rate is greater than that of the
  first, and the first variant otherwise, and the improvement is
  \<open>|rateB - rateA| / rateA * 100\<close> rounded to two decimals, where \<open>rateA\<close> is the rate of
  the first variant of the test whichever variant wins. Below the confidence level the
  recommendation is the promising one from 80 on and the one to continue below 80.
\<close>

theorem significance_evaluation:
  assumes "findTest tid s = Some t"
    and "variantsOf tid s = [a, b]"
    and "test_minSampleSize t \<le> variant_impressions a"
    and "test_minSampleSize t \<le> variant_impressions b"
  shows "let p1 = rateOf (variantResultOf a);
             p2 = rateOf (variantResultOf b);
             sig = zTestSignificance st (variantResultOf a) (variantResultOf b);
             required = Num (test_confidenceLevel t);
             better = (if jgt p2 p1 then b else a);
             imp = jround2 (jmul (jabs (jdiv (jsub p2 p1) p1)) (Num 100))
         in \<exists>r. getTestResults st tid s = Inr r \<and>
              statisticalSignificance r = Some (jround2 sig) \<and>
              ((winner r \<noteq> None) = jge sig required) \<and>
              (jge sig required \<longrightarrow>
                 winner r = Some \<lparr>variantId = variant_id better,
                                  variantName = variant_name better, improvement = imp\<rparr> \<and>
                 recommendedAction r =
                   Some (variant_name better @ '' is significantly better. Implement this variant.'')) \<and>
              (\<not> jge sig required \<and> jge sig (Num 80) \<longrightarrow>
                 recommendedAction r = Some ''Test showing promising results but needs more data'') \<and>
              (\<not> jge sig required \<and> \<not> jge sig (Num 80) \<longrightarrow>
                 recommendedAction r =
                   Some ''Continue test - not enough data for conclusive results'') \<and>
              (0 < variant_impressions a \<and> 0 < variant_impressions b \<and>
               0 < variant_conversions a \<longrightarrow>
                 imp = Num (round2
                   (\<bar>of_int (variant_conversions b) / of_int (variant_impressions b) -
                     of_int (variant_conversions a) / of_int (variant_impressions a)\<bar>
                    / (of_int (variant_conversions a) / of_int (variant_impressions a)) * 100)))"
proof -
  have gate: "enoughData t (map variantResultOf (variantsOf tid s))"
    using assms(2,3,4) by (simp add: enoughData_def)
  note r = getTestResults_gate_passed [OF assms(1) gate, of st, unfolded assms(2)]
  have fin: "0 < variant_impressions a \<and> 0 < variant_impressions b \<and>
               0 < variant_conversions a \<longrightarrow>
      jround2 (jmul (jabs (jdiv (jsub (rateOf (variantResultOf b)) (rateOf (variantResultOf a)))
                                  (rateOf (variantResultOf a)))) (Num 100))
         = Num (round2 (\<bar>of_int (variant_conversions b) / of_int (variant_impressions b) -
                         of_int (variant_conversions a) / of_int (variant_impressions a)\<bar>
                        / (of_int (variant_conversions a) / of_int (variant_impressions a)) * 100))"
    using improvement_finite by blast
  show ?thesis
    unfolding Let_def
    apply (rule exI, rule conjI, rule r)
    using fin
    apply (simp add: analysis_two)
    done
qed

theorem significance_evaluation_witness:
  "findTest ''t1'' abStore1 = Some test1 \<and>
   variantsOf ''t1'' abStore1 = [variantA, variantB] \<and>
   test_minSampleSize test1 \<le> variant_impressions variantA \<and>
   test_minSampleSize test1 \<le> variant_impressions variantB \<and>
   jge (zTestSignificance stepStats (variantResultOf variantA) (variantResultOf variantB))
       (Num (test_confidenceLevel test1)) \<and>
   (\<exists>r. getTestResults stepStats ''t1'' abStore1 = Inr r \<and>
        statisticalSignificance r = Some (Num (2386 / 25)) \<and>
        winner r = Some \<lparr>variantId = ''vA'', variantName = ''A'', improvement = Num 25\<rparr> \<and>
        recommendedAction r = Some ''A is significantly better. Implement this variant.'')"
proof -
  have h3: "test_minSampleSize test1 \<le> variant_impressions variantA"
    by (simp add: test1_def variantA_def)
  have h4: "test_minSampleSize test1 \<le> variant_impressions variantB"
    by (simp add: test1_def variantB_def)
  have g: "jge (zTestSignificance stepStats (variantResultOf variantA) (variantResultOf variantB))
       (Num (test_confidenceLevel test1))"
    by (simp add: significance_abStore1 test1_def)
  have n: "variant_id variantA = ''vA''" "variant_name variantA = ''A''"
    by (simp_all add: variantA_def)
  from significance_evaluation
         [OF findTest_abStore1 variantsOf_abStore1 h3 h4, of stepStats, unfolded Let_def]
  obtain r where r: "getTestResults stepStats ''t1'' abStore1 = Inr r"
    and s: "statisticalSignificance r =
       Some (jround2 (zTestSignificance stepStats (variantResultOf variantA) (variantResultOf variantB)))"
    and w: "jge (zTestSignificance stepStats (variantResultOf variantA) (variantResultOf variantB))
              (Num (test_confidenceLevel test1)) \<longrightarrow>
            winner r =
              Some \<lparr>variantId = variant_id
                       (if jgt (rateOf (variantResultOf variantB)) (rateOf (variantResultOf variantA))
                        then variantB else variantA),
                    variantName = variant_name
                       (if jgt (rateOf (variantResultOf variantB)) (rateOf (variantResultOf variantA))
                        then variantB else variantA),
                    improvement =
                      jround2 (jmul (jabs (jdiv (jsub (rateOf (variantResultOf variantB))
                                                      (rateOf (variantResultOf variantA)))
                                                (rateOf (variantResultOf variantA)))) (Num 100))\<rparr> \<and>
            recommendedAction r =
              Some (variant_name
                       (if jgt (rateOf (variantResultOf variantB)) (rateOf (variantResultOf variantA))
                        then variantB else variantA) @
                    '' is significantly better. Implement this variant.'')"
    by (elim exE conjE)
  from s have s': "statisticalSignificance r = Some (Num (2386 / 25))"
    by (simp add: significance_abStore1 jround2_Num round2_def js_round_def)
  from w g have "winner r = Some \<lparr>variantId = ''vA'', variantName = ''A'', improvement = Num 25\<rparr> \<and>
        recommendedAction r = Some ''A is significantly better. Implement this variant.''"
    by (simp add: rates_abStore1 improvement_abStore1 n)
  with findTest_abStore1 variantsOf_abStore1 h3 h4 g r s' show ?thesis by auto
qed

text \<open>
  Where C2 as stated fails: the first variant converts at 20 percent and the second at
  15 percent, the first wins, and the reported improvement is 25, the difference relative
  to the winner's own rate; relative to the lower rate it would be 33.33.
\<close>

theorem improvement_baseline_counterexample:
  "map_sum id (\<lambda>r. (winner r, statisticalSignificance r))
     (getTestResults stepStats ''t1'' abStore1)
     = Inr (Some \<lparr>variantId = ''vA'', variantName = ''A'', improvement = Num 25\<rparr>,
            Some (Num (2386 / 25))) \<and>
   vr_conversionRate (variantResultOf variantA) = 20 \<and>
   vr_conversionRate (variantResultOf variantB) = 15 \<and>
   round2 (\<bar>15 - 20\<bar> / 15 * 100) = 3333 / 100"
proof -
  have gate: "enoughData test1 (map variantResultOf (variantsOf ''t1'' abStore1))"
    by (simp add: variantsOf_abStore1 enoughData_def test1_def variantA_def variantB_def)
  have n: "variant_id variantA = ''vA''" "variant_name variantA = ''A''"
    by (simp_all add: variantA_def)
  have c: "test_confidenceLevel test1 = 95" by (simp add: test1_def)
  have a: "performStatisticalAnalysis stepStats
             [variantResultOf variantA, variantResultOf variantB] 95 =
           \<lparr>significance = Num (2386 / 25),
            analysisWinner =
              Some \<lparr>variantId = ''vA'', variantName = ''A'', improvement = Num 25\<rparr>,
            recommendation = ''A is significantly better. Implement this variant.''\<rparr>"
    by (simp add: analysis_two significance_abStore1 rates_abStore1 improvement_abStore1 n
        jround2_Num round2_def js_round_def)
  have "map_sum id (\<lambda>r. (winner r, statisticalSignificance r))
     (getTestResults stepStats ''t1'' abStore1)
     = Inr (Some \<lparr>variantId = ''vA'', variantName = ''A'', improvement = Num 25\<rparr>,
            Some (Num (2386 / 25)))"
    unfolding getTestResults_gate_passed [OF findTest_abStore1 gate]
    by (simp add: variantsOf_abStore1 c a)
  moreover have "vr_conversionRate (variantResultOf variantA) = 20 \<and>
   vr_conversionRate (variantResultOf variantB) = 15 \<and>
   round2 (\<bar>15 - 20\<bar> / 15 * 100) = 3333 / 100"
    by (simp add: variantResultOf_def variantA_def variantB_def Let_def round2_def js_round_def)
  ultimately show ?thesis by blast
qed

end
